theory Spec2Isabelle
  imports Main "HOL-Library.Sublist" "HOL-Library.Product_Lexorder" "HOL-Library.Option_ord"
begin

section \<open>Python values used by the sync scripts\<close>

text \<open>
  A Python \<open>str\<close> is a list of characters. Each \<^typ>\<open>char\<close> stands for the code point
  of the same number, so the model covers the code points 0..255 and \<^const>\<open>length\<close>
  counts what Python's \<open>len\<close> counts. Time is a number of microseconds on the local
  time line, a calendar date is a number of days.
\<close>

type_synonym datetime = int
type_synonym date = int

definition date_of :: "datetime \<Rightarrow> date" where
  "date_of dt = dt div 86400000000"

definition minutes :: "int \<Rightarrow> datetime" where
  "minutes n = n * 60000000"

text \<open>\<open>str.lower()\<close> on the code points 0..255: A-Z and the upper-case letters
  U+00C0..U+00DE (but not the multiplication sign U+00D7) move up by 32.\<close>

definition lower_char :: "char \<Rightarrow> char" where
  "lower_char c =
     (let n = (of_char c :: nat)
      in if (65 \<le> n \<and> n \<le> 90) \<or> (192 \<le> n \<and> n \<le> 222 \<and> n \<noteq> 215)
         then char_of (n + 32) else c)"

definition py_lower :: "string \<Rightarrow> string" where
  "py_lower s = map lower_char s"

text \<open>\<open>str.strip()\<close>: the white space of the code points 0..255.\<close>

definition is_space :: "char \<Rightarrow> bool" where
  "is_space c =
     (let n = (of_char c :: nat)
      in (9 \<le> n \<and> n \<le> 13) \<or> (28 \<le> n \<and> n \<le> 32) \<or> n = 133 \<or> n = 160)"

definition py_strip :: "string \<Rightarrow> string" where
  "py_strip s = rev (dropWhile is_space (rev (dropWhile is_space s)))"

text \<open>The class \<open>\d\<close> of \<open>re\<close> on the code points 0..255.\<close>

definition is_digit :: "char \<Rightarrow> bool" where
  "is_digit c = (let n = (of_char c :: nat) in 48 \<le> n \<and> n \<le> 57)"

text \<open>\<open>s.split(sep)\<close> for a one-character separator; the result is never empty.\<close>

fun split_char :: "char \<Rightarrow> string \<Rightarrow> string list" where
  "split_char sep [] = [[]]"
| "split_char sep (c # cs) =
     (if c = sep then [] # split_char sep cs
      else (case split_char sep cs of
              [] \<Rightarrow> [[c]]
            | p # ps \<Rightarrow> (c # p) # ps))"

text \<open>\<open>sub in s\<close> on strings.\<close>

fun py_in :: "string \<Rightarrow> string \<Rightarrow> bool" where
  "py_in sub [] = (sub = [])"
| "py_in sub (c # cs) = (prefix sub (c # cs) \<or> py_in sub cs)"

text \<open>\<open>str(n)\<close> for an integer.\<close>

function str_of_nat :: "nat \<Rightarrow> string" where
  "str_of_nat n =
     (if n < 10 then [char_of (48 + n)]
      else str_of_nat (n div 10) @ [char_of (48 + n mod 10)])"
  by pat_completeness auto
termination
  by (relation "measure id") auto

definition str_of_int :: "int \<Rightarrow> string" where
  "str_of_int i = (if i < 0 then CHR ''-'' # str_of_nat (nat (- i)) else str_of_nat (nat i))"

text \<open>
  An exception is a value that carries a text for \<open>str(e)\<close>. For an exception of
  the database or the network the text comes with the run; for one raised inside
  \<open>requests\<close> or the interpreter the model keeps a short text of its own (the status
  code, the attribute that was asked for).
\<close>

datatype py_exn =
    IntegrityError string
  | OperationalError string
  | RequestException string
  | HTTPError string
  | JSONDecodeError string
  | AttributeError string
  | TypeError string
  | KeyError string

fun str_exn :: "py_exn \<Rightarrow> string" where
  "str_exn (IntegrityError m) = m"
| "str_exn (OperationalError m) = m"
| "str_exn (RequestException m) = m"
| "str_exn (HTTPError m) = m"
| "str_exn (JSONDecodeError m) = m"
| "str_exn (AttributeError m) = m"
| "str_exn (TypeError m) = m"
| "str_exn (KeyError m) = m"


section \<open>sync\_to\_mysql.py: LeadCleaner\<close>

text \<open>
  A key of a Python dictionary is absent, or holds \<open>None\<close>, or holds a value.
  \<open>d.get(key)\<close> reads the first two alike; \<open>d.get(key, default)\<close> gives the default
  for an absent key only, and \<open>None\<close> for a key that holds \<open>None\<close>. A Python value
  that may be \<open>None\<close> is an option.
\<close>

datatype 'a entry = Absent | Null | Val 'a

definition get :: "'a entry \<Rightarrow> 'a option" where
  "get v = (case v of Val x \<Rightarrow> Some x | _ \<Rightarrow> None)"

definition get_or :: "'a entry \<Rightarrow> 'a \<Rightarrow> 'a option" where
  "get_or v dflt = (case v of Absent \<Rightarrow> Some dflt | Null \<Rightarrow> None | Val x \<Rightarrow> Some x)"

text \<open>The text under a key, empty when the key holds none.\<close>

definition text_of :: "string entry \<Rightarrow> string" where
  "text_of v = (case v of Val s \<Rightarrow> s | _ \<Rightarrow> [])"

text \<open>
  The dictionary \<open>processed\<close> that \<open>process_lead\<close> builds and that
  \<open>calculate_quality_score\<close> reads, a field per key. A key that holds a value holds
  one of the type that \<open>process_lead\<close> writes under it.
\<close>

record lead_dict =
  email :: "string entry"
  email_valid :: "bool entry"
  email_domain :: "string entry"
  phone :: "string entry"
  phone_cleaned :: "string entry"
  phone_country :: "string entry"
  phone_valid :: "bool entry"
  phone_type :: "string entry"
  first_name :: "string entry"
  last_name :: "string entry"
  signup_date :: "date entry"
  signup_datetime :: "datetime entry"
  source :: "string entry"
  source_id :: "string entry"
  quality_score :: "int entry"

definition empty_dict :: lead_dict where
  "empty_dict =
     \<lparr>email = Absent, email_valid = Absent, email_domain = Absent, phone = Absent,
      phone_cleaned = Absent, phone_country = Absent, phone_valid = Absent,
      phone_type = Absent, first_name = Absent, last_name = Absent, signup_date = Absent,
      signup_datetime = Absent, source = Absent, source_id = Absent,
      quality_score = Absent\<rparr>"

text \<open>\<open>d.get(key, '')\<close> on a key of a record of the source, which is absent or holds a
  string.\<close>

definition get_str :: "string option \<Rightarrow> string" where
  "get_str v = (case v of None \<Rightarrow> [] | Some s \<Rightarrow> s)"

text \<open>
  The third-party validators are parameters of the model. \<open>validate_email e\<close> is
  \<^term>\<open>Some n\<close> when the library accepts \<open>e\<close> and reports the normalized address
  \<open>n\<close> (\<open>validation.email\<close>), and \<^const>\<open>None\<close> when it raises
  \<open>EmailNotValidError\<close>.
\<close>

definition clean_email :: "(string \<Rightarrow> string option) \<Rightarrow> string \<Rightarrow> string \<times> bool" where
  "clean_email validate_email email' =
     (if email' = [] then ([], False)
      else let e = py_lower (py_strip email')
           in (case validate_email e of
                 Some normalized \<Rightarrow> (normalized, True)
               | None \<Rightarrow> (e, False)))"

text \<open>
  What \<open>phonenumbers\<close> answers for a string and a default region: \<open>parse\<close> raises
  \<open>NumberParseException\<close>, or the number parses and is not valid, or it is valid with
  its E.164 rendering and its region code (which may be \<open>None\<close>).
\<close>

datatype parsed_number =
    NumberParseException
  | InvalidNumber
  | ValidNumber string "string option"

definition clean_phone ::
  "(string \<Rightarrow> string \<Rightarrow> parsed_number) \<Rightarrow> string \<Rightarrow> string \<Rightarrow> string \<times> string option \<times> bool"
where
  "clean_phone phonenumbers phone' default_country =
     (if phone' = [] then ([], Some [], False)
      else let p = py_strip phone'
           in (case phonenumbers p default_country of
                 ValidNumber cleaned country \<Rightarrow> (cleaned, country, True)
               | InvalidNumber \<Rightarrow> (filter is_digit p, Some [], False)
               | NumberParseException \<Rightarrow> (filter is_digit p, Some [], False)))"

definition generic_domains :: "string list" where
  "generic_domains = [''gmail.com'', ''yahoo.com'', ''hotmail.com'', ''outlook.com'']"

definition bad_sources :: "string list" where
  "bad_sources = [''test'', ''unknown'', '''']"

text \<open>
  \<open>calculate_quality_score\<close>. \<open>lead.get('email', '')\<close> and \<open>lead.get('source', '')\<close>
  are \<open>None\<close> for a key that holds \<open>None\<close>, and \<open>.split\<close> and \<open>.lower\<close> then raise
  \<open>AttributeError\<close>.
\<close>

definition calculate_quality_score :: "lead_dict \<Rightarrow> py_exn + int" where
  "calculate_quality_score lead =
     (let score = 50;
          score = (if get (email_valid lead) = Some True then score + 20 else score);
          score = (if (case get (phone_cleaned lead) of
                         None \<Rightarrow> False
                       | Some p \<Rightarrow> p \<noteq> [] \<and> 10 \<le> length p)
                   then score + 15 else score);
          score = (if get (phone_valid lead) = Some True then score + 10 else score)
      in case get_or (email lead) [] of
           None \<Rightarrow> Inl (AttributeError ''split'')
         | Some e \<Rightarrow>
            (let domain = py_lower (last (split_char CHR ''@'' e));
                 score = (if domain \<notin> set generic_domains then score + 10 else score)
             in case get_or (source lead) [] of
                  None \<Rightarrow> Inl (AttributeError ''lower'')
                | Some label \<Rightarrow>
                   (let score = (if py_lower label \<in> set bad_sources
                                 then score - 5 else score)
                    in Inr (min (max score 0) 100))))"


subsection \<open>The scoring rule as the specification words it\<close>

text \<open>
  The second reading of the rule, taken from the specification and not from the code:
  a score for every record, in which the phone bonus asks for at least ten digits and
  the source penalty names the three labels as they are written. It is compared with
  \<^const>\<open>calculate_quality_score\<close> below.
\<close>

definition count_digits :: "string \<Rightarrow> nat" where
  "count_digits s = length (filter is_digit s)"

definition score_as_specified :: "lead_dict \<Rightarrow> int" where
  "score_as_specified lead =
     min (max (50
       + (if email_valid lead = Val True then 20 else 0)
       + (if 10 \<le> count_digits (text_of (phone_cleaned lead)) then 15 else 0)
       + (if phone_valid lead = Val True then 10 else 0)
       + (if py_lower (last (split_char CHR ''@'' (text_of (email lead)))) \<notin> set generic_domains
          then 10 else 0)
       - (if text_of (source lead) \<in> set bad_sources then 5 else 0)) 0) 100"

text \<open>Four inputs of the scorer: a complete record, a record whose E.164 number has
  nine digits, a record whose source label is written in capitals, and a record whose
  key \<open>email\<close> holds \<open>None\<close>.\<close>

definition complete_lead :: lead_dict where
  "complete_lead = empty_dict
     \<lparr>email := Val ''a@test.com'', email_valid := Val True,
      phone_cleaned := Val ''+15551234567'', phone_valid := Val True,
      source := Val ''wordpress''\<rparr>"

definition nine_digit_lead :: lead_dict where
  "nine_digit_lead = empty_dict
     \<lparr>email := Val ''a@firm.fo'', email_valid := Val True,
      phone_cleaned := Val ''+298201234'', phone_valid := Val True,
      source := Val ''wordpress''\<rparr>"

definition capitals_lead :: lead_dict where
  "capitals_lead = empty_dict
     \<lparr>email := Val ''a@firm.fo'', email_valid := Val True, source := Val ''TEST''\<rparr>"

definition no_email_lead :: lead_dict where
  "no_email_lead = empty_dict\<lparr>email := Null, source := Val ''wordpress''\<rparr>"


section \<open>unified\_sync.py and sync\_to\_mysql.py: process\_lead\<close>

text \<open>
  A record as the source system sends it. \<^const>\<open>None\<close> is a key the record does not
  carry. The native \<open>id\<close> is a JSON number or a JSON string.
\<close>

datatype raw_id = IdInt int | IdStr string

record raw_fields =
  raw_email :: "string option"
  raw_phone :: "string option"
  raw_first_name :: "string option"
  raw_last_name :: "string option"
  raw_signup_date :: "string option"
  raw_id :: "raw_id option"

text \<open>The fetched item: its own keys, and the nested \<open>raw_data\<close> when it has one.\<close>

record wp_lead =
  own :: raw_fields
  raw_data :: "raw_fields option"

text \<open>
  What the run supplies to \<open>process_lead\<close>: the two validators, \<open>datetime.strptime\<close>
  for the format \<open>%Y-%m-%d %H:%M:%S\<close> (\<^const>\<open>None\<close> when it raises) and the two
  readings of \<open>datetime.now()\<close> that a fallback branch takes.
\<close>

record cleaner_env =
  validate_email :: "string \<Rightarrow> string option"
  phonenumbers :: "string \<Rightarrow> string \<Rightarrow> parsed_number"
  strptime :: "string \<Rightarrow> datetime option"
  now_first :: datetime
  now_second :: datetime

definition str_of_id :: "raw_id option \<Rightarrow> string" where
  "str_of_id v = (case v of None \<Rightarrow> [] | Some (IdInt i) \<Rightarrow> str_of_int i | Some (IdStr s) \<Rightarrow> s)"

text \<open>An optional Python value as the content of a key: \<open>None\<close> is stored as
  \<open>None\<close>.\<close>

definition held :: "'a option \<Rightarrow> 'a entry" where
  "held v = (case v of None \<Rightarrow> Null | Some x \<Rightarrow> Val x)"

text \<open>\<open>process_lead\<close>; what \<open>calculate_quality_score\<close> raises leaves the method.\<close>

definition process_lead :: "cleaner_env \<Rightarrow> wp_lead \<Rightarrow> py_exn + lead_dict" where
  "process_lead env lead =
     (let processed = empty_dict;
          raw = (case raw_data lead of Some r \<Rightarrow> r | None \<Rightarrow> own lead);
          (e, e_valid) = clean_email (validate_email env) (get_str (raw_email raw));
          processed = processed\<lparr>email := Val e, email_valid := Val e_valid\<rparr>;
          processed =
            (if e \<noteq> [] \<and> CHR ''@'' \<in> set e
             then processed\<lparr>email_domain := Val (split_char CHR ''@'' e ! 1)\<rparr>
             else processed\<lparr>email_domain := Null\<rparr>);
          (p_cleaned, p_country, p_valid) =
            clean_phone (phonenumbers env) (get_str (raw_phone raw)) ''US'';
          processed = processed
            \<lparr>phone := Val (get_str (raw_phone raw)),
             phone_country := held p_country,
             phone_valid := Val p_valid,
             phone_type := (if p_valid then Val ''mobile'' else Null)\<rparr>;
          processed = processed
            \<lparr>first_name := Val (get_str (raw_first_name raw)),
             last_name := Val (get_str (raw_last_name raw))\<rparr>;
          signup_date_str = get_str (raw_signup_date raw);
          processed =
            (if signup_date_str \<noteq> []
             then (case strptime env signup_date_str of
                     Some signup_dt \<Rightarrow>
                       processed\<lparr>signup_date := Val (date_of signup_dt),
                                 signup_datetime := Val signup_dt\<rparr>
                   | None \<Rightarrow>
                       processed\<lparr>signup_date := Val (date_of (now_first env)),
                                 signup_datetime := Val (now_second env)\<rparr>)
             else processed\<lparr>signup_date := Val (date_of (now_first env)),
                            signup_datetime := Val (now_second env)\<rparr>);
          processed = processed
            \<lparr>source := Val ''wordpress'', source_id := Val (str_of_id (raw_id raw))\<rparr>
      in case calculate_quality_score processed of
           Inl exn \<Rightarrow> Inl exn
         | Inr score \<Rightarrow> Inr (processed\<lparr>quality_score := Val score\<rparr>))"


section \<open>JSON values and the database\<close>

text \<open>
  A decoded JSON document. \<^term>\<open>JNull\<close> is Python's \<open>None\<close>; an object is the
  list of its items in order, with no key twice. Numbers are integers.
\<close>

datatype json =
    JNull
  | JBool bool
  | JNum int
  | JStr string
  | JArr "json list"
  | JObj "(string \<times> json) list"

text \<open>The truth value of a Python object in \<open>if x:\<close> and \<open>x or y\<close>.\<close>

fun truthy :: "json \<Rightarrow> bool" where
  "truthy JNull = False"
| "truthy (JBool b) = b"
| "truthy (JNum n) = (n \<noteq> 0)"
| "truthy (JStr s) = (s \<noteq> [])"
| "truthy (JArr xs) = (xs \<noteq> [])"
| "truthy (JObj kvs) = (kvs \<noteq> [])"

text \<open>\<open>d.get(key, default)\<close> and \<open>d[key] = value\<close> on the items of a dictionary.\<close>

definition dict_get :: "(string \<times> json) list \<Rightarrow> string \<Rightarrow> json \<Rightarrow> json" where
  "dict_get kvs key dflt = (case map_of kvs key of None \<Rightarrow> dflt | Some v \<Rightarrow> v)"

fun dict_set :: "(string \<times> json) list \<Rightarrow> string \<Rightarrow> json \<Rightarrow> (string \<times> json) list" where
  "dict_set [] key v = [(key, v)]"
| "dict_set ((k, w) # kvs) key v =
     (if k = key then (k, v) # kvs else (k, w) # dict_set kvs key v)"

text \<open>
  The tables \<open>leads\<close> and \<open>ghl_sync_log\<close> of setup\_mysql\_database.py, a row per record
  and a field per column, in the order of insertion. Columns that the schema lets be
  \<open>NULL\<close> and that the scripts write through \<open>.get\<close> are options.
\<close>

record lead_row =
  l_id :: nat
  l_email :: string
  l_phone :: "string option"
  l_first_name :: "string option"
  l_last_name :: "string option"
  l_signup_date :: "date option"
  l_signup_datetime :: "datetime option"
  l_email_valid :: "bool option"
  l_email_domain :: "string option"
  l_phone_valid :: "bool option"
  l_phone_country :: "string option"
  l_phone_type :: "string option"
  l_quality_score :: "int option"
  l_is_processed :: bool
  l_processed_at :: "datetime option"
  l_ghl_synced :: bool
  l_ghl_synced_at :: "datetime option"
  l_ghl_contact_id :: json
  l_ghl_sync_attempts :: int
  l_source :: "string option"
  l_source_id :: "string option"
  l_created_at :: datetime
  l_updated_at :: datetime

datatype sync_status = Pending | Success | Failed | Retry

record log_row =
  g_id :: nat
  g_lead_id :: nat
  g_email :: string
  g_request_timestamp :: datetime
  g_request_body :: json
  g_response_status_code :: "int option"
  g_response_body :: json
  g_response_timestamp :: datetime
  g_status :: sync_status
  g_error_message :: "string option"
  g_retry_count :: int
  g_next_retry_at :: "datetime option"
  g_ghl_contact_id :: json
  g_ghl_location_id :: string
  g_created_at :: datetime
  g_updated_at :: datetime

text \<open>
  The database: the two tables, their \<open>AUTO_INCREMENT\<close> counters, and the collation
  of the column \<open>leads.email\<close> (\<open>utf8mb4_unicode_ci\<close> in a database that
  setup\_mysql\_database.py created). The collation is the key under which the server
  compares: \<open>email = %s\<close> holds of a row when the key of its email is the key of the
  parameter, and the \<open>UNIQUE\<close> index admits one row per key.
\<close>

record db =
  leads :: "lead_row list"
  leads_auto_increment :: nat
  ghl_sync_log :: "log_row list"
  log_auto_increment :: nat
  email_collation :: "string \<Rightarrow> string"

text \<open>\<open>WHERE email = %s\<close> on a row of \<open>leads\<close>.\<close>

definition email_matches :: "db \<Rightarrow> string \<Rightarrow> lead_row \<Rightarrow> bool" where
  "email_matches d e r = (email_collation d (l_email r) = email_collation d e)"

text \<open>
  What the database server does in one call of a method that opens a connection:
  \<open>pymysql.connect\<close> may raise, the first statement (a \<open>SELECT\<close>) may raise, the
  writing statements and the commit may raise, and \<open>NOW()\<close> has a value. A statement
  that raises leaves the tables as they were: the connection is closed with nothing
  committed.
\<close>

record db_run =
  connect_error :: "py_exn option"
  select_error :: "py_exn option"
  write_error :: "py_exn option"
  db_now :: datetime

definition no_db_error :: "db_run \<Rightarrow> bool" where
  "no_db_error run =
     (connect_error run = None \<and> select_error run = None \<and> write_error run = None)"


section \<open>unified\_sync.py: save\_lead\_to\_mysql, and sync\_to\_mysql.py: save\_lead\<close>

text \<open>The row that the \<open>INSERT INTO leads\<close> of both methods adds: the fourteen values
  of the statement, and the defaults of the schema for the other columns. A value read
  with \<open>.get\<close> is \<open>NULL\<close> when the key holds \<open>None\<close>; the methods reach the statement
  only when \<open>processed['email']\<close> is a string that is not empty.\<close>

definition inserted_row :: "nat \<Rightarrow> datetime \<Rightarrow> lead_dict \<Rightarrow> lead_row" where
  "inserted_row new_id now processed =
     \<lparr>l_id = new_id,
      l_email = text_of (email processed),
      l_phone = get (phone processed),
      l_first_name = get (first_name processed),
      l_last_name = get (last_name processed),
      l_signup_date = get (signup_date processed),
      l_signup_datetime = get (signup_datetime processed),
      l_email_valid = get_or (email_valid processed) False,
      l_email_domain = get (email_domain processed),
      l_phone_valid = get_or (phone_valid processed) False,
      l_phone_country = get (phone_country processed),
      l_phone_type = get (phone_type processed),
      l_quality_score = get_or (quality_score processed) 0,
      l_is_processed = False,
      l_processed_at = None,
      l_ghl_synced = False,
      l_ghl_synced_at = None,
      l_ghl_contact_id = JNull,
      l_ghl_sync_attempts = 0,
      l_source = get_or (source processed) ''wordpress'',
      l_source_id = get (source_id processed),
      l_created_at = now,
      l_updated_at = now\<rparr>"

text \<open>\<open>UPDATE leads SET updated_at = NOW() WHERE id = %s\<close>.\<close>

definition touch_lead :: "nat \<Rightarrow> datetime \<Rightarrow> lead_row list \<Rightarrow> lead_row list" where
  "touch_lead i now rows = map (\<lambda>r. if l_id r = i then r\<lparr>l_updated_at := now\<rparr> else r) rows"

text \<open>The two \<open>except\<close> clauses of \<open>save_lead_to_mysql\<close>.\<close>

definition save_failed_unified :: "py_exn \<Rightarrow> bool \<times> bool \<times> nat option" where
  "save_failed_unified e =
     (case e of
        IntegrityError m \<Rightarrow>
          if py_in ''Duplicate entry'' m then (True, False, None) else (False, False, None)
      | _ \<Rightarrow> (False, False, None))"

text \<open>
  \<open>save_lead_to_mysql\<close> returns \<open>(success, is_new, lead_id)\<close> and the database after
  the call. \<open>process_lead\<close>, the reading of \<open>processed['email']\<close> and
  \<open>get_db_connection\<close> stand before the \<open>try\<close>, so what they raise leaves the method
  (\<^const>\<open>Inl\<close>).
\<close>

definition save_lead_to_mysql ::
  "cleaner_env \<Rightarrow> db_run \<Rightarrow> db \<Rightarrow> wp_lead \<Rightarrow> (py_exn + bool \<times> bool \<times> nat option) \<times> db"
where
  "save_lead_to_mysql env run d lead =
     (case process_lead env lead of
        Inl exn \<Rightarrow> (Inl exn, d)
      | Inr processed \<Rightarrow>
         (case email processed of
            Absent \<Rightarrow> (Inl (KeyError ''email''), d)
          | Null \<Rightarrow> (Inr (False, False, None), d)
          | Val e \<Rightarrow>
             if e = [] then (Inr (False, False, None), d)
             else (case connect_error run of
                     Some exn \<Rightarrow> (Inl exn, d)
                   | None \<Rightarrow>
                      (case select_error run of
                         Some exn \<Rightarrow> (Inr (save_failed_unified exn), d)
                       | None \<Rightarrow>
                          (case find (email_matches d e) (leads d) of
                             Some existing \<Rightarrow>
                               (case write_error run of
                                  Some exn \<Rightarrow> (Inr (save_failed_unified exn), d)
                                | None \<Rightarrow>
                                    (Inr (True, False, Some (l_id existing)),
                                     d\<lparr>leads :=
                                         touch_lead (l_id existing) (db_now run) (leads d)\<rparr>))
                           | None \<Rightarrow>
                               (case write_error run of
                                  Some exn \<Rightarrow> (Inr (save_failed_unified exn), d)
                                | None \<Rightarrow>
                                    (Inr (True, True, Some (leads_auto_increment d)),
                                     d\<lparr>leads := leads d @
                                          [inserted_row (leads_auto_increment d) (db_now run)
                                             processed],
                                       leads_auto_increment := leads_auto_increment d + 1\<rparr>)))))))"

text \<open>The two \<open>except\<close> clauses of \<open>save_lead\<close>.\<close>

definition save_failed :: "py_exn \<Rightarrow> bool \<times> bool" where
  "save_failed e =
     (case e of
        IntegrityError m \<Rightarrow> if py_in ''Duplicate entry'' m then (True, False) else (False, False)
      | _ \<Rightarrow> (False, False))"

text \<open>\<open>MySQLSync.save_lead\<close> returns \<open>(success, is_new)\<close>; its \<open>with
  self.get_connection()\<close> stands before the \<open>try\<close> as well.\<close>

definition save_lead ::
  "cleaner_env \<Rightarrow> db_run \<Rightarrow> db \<Rightarrow> wp_lead \<Rightarrow> (py_exn + bool \<times> bool) \<times> db"
where
  "save_lead env run d lead =
     (case process_lead env lead of
        Inl exn \<Rightarrow> (Inl exn, d)
      | Inr processed \<Rightarrow>
         (case email processed of
            Absent \<Rightarrow> (Inl (KeyError ''email''), d)
          | Null \<Rightarrow> (Inr (False, False), d)
          | Val e \<Rightarrow>
             if e = [] then (Inr (False, False), d)
             else (case connect_error run of
                     Some exn \<Rightarrow> (Inl exn, d)
                   | None \<Rightarrow>
                      (case select_error run of
                         Some exn \<Rightarrow> (Inr (save_failed exn), d)
                       | None \<Rightarrow>
                          (case find (email_matches d e) (leads d) of
                             Some existing \<Rightarrow>
                               (case write_error run of
                                  Some exn \<Rightarrow> (Inr (save_failed exn), d)
                                | None \<Rightarrow>
                                    (Inr (True, False),
                                     d\<lparr>leads :=
                                         touch_lead (l_id existing) (db_now run) (leads d)\<rparr>))
                           | None \<Rightarrow>
                               (case write_error run of
                                  Some exn \<Rightarrow> (Inr (save_failed exn), d)
                                | None \<Rightarrow>
                                    (Inr (True, True),
                                     d\<lparr>leads := leads d @
                                          [inserted_row (leads_auto_increment d) (db_now run)
                                             processed],
                                       leads_auto_increment := leads_auto_increment d + 1\<rparr>)))))))"


section \<open>ghl\_client.py: GHLClient\<close>

text \<open>
  One HTTP exchange as the client sees it: \<open>requests\<close> raises a
  \<open>RequestException\<close>, or there is a response with its status code, its body decoded
  as JSON (\<^const>\<open>None\<close> when \<open>response.json()\<close> raises) and its text. The error of
  \<open>response.json()\<close> is both a \<open>json.JSONDecodeError\<close> and a \<open>RequestException\<close>,
  as in requests 2.27 and later. The session of the client retries a GET or a PUT that
  is answered 500, 502 or 504 and raises when the answer stays the same, so for these
  two requests such an answer shows as \<^term>\<open>Raises\<close>.
\<close>

record http_response =
  status_code :: int
  json_body :: "json option"
  body_text :: string

datatype http_outcome = Raises string | Answers http_response

text \<open>
  What one call of \<open>create_or_update_contact\<close> meets: the answers to its POST, GET
  and PUT requests, Python's \<open>str()\<close> on a decoded body, and the reading of
  \<open>datetime.utcnow()\<close> at each place that takes one: 0 and 1 in \<open>create_contact\<close>,
  2 and 3 in \<open>update_contact\<close>, 4 and 5 in the \<open>except\<close> clause of \<open>sync_lead\<close>.
\<close>

record ghl_run =
  location_id :: string
  str_of_json :: "json \<Rightarrow> string"
  post_outcome :: http_outcome
  get_outcome :: http_outcome
  put_outcome :: http_outcome
  utcnow :: "nat \<Rightarrow> datetime"

text \<open>The dictionary the client returns. \<open>update_contact\<close> builds it without the key
  \<open>ghl_contact_id\<close>, which reads as \<open>None\<close> through \<open>.get\<close>.\<close>

record ghl_result =
  request_timestamp :: datetime
  request_body :: json
  response_status_code :: "int option"
  response_body :: json
  response_timestamp :: datetime
  success :: bool
  error_message :: "string option"
  ghl_contact_id :: json
  result_note :: "string option"

text \<open>The keyword arguments of \<open>create_contact\<close> and \<open>create_or_update_contact\<close>.\<close>

record contact_args =
  ca_email :: string
  ca_phone :: "string option"
  ca_first_name :: "string option"
  ca_last_name :: "string option"
  ca_name :: "string option"
  ca_tags :: "string list option"
  ca_custom_fields :: "(string \<times> json) list option"
  ca_source :: "string option"

text \<open>\<open>if x:\<close> on an optional string and on an optional list.\<close>

definition given :: "string option \<Rightarrow> bool" where
  "given v = (case v of None \<Rightarrow> False | Some s \<Rightarrow> s \<noteq> [])"

definition given_list :: "'a list option \<Rightarrow> bool" where
  "given_list v = (case v of None \<Rightarrow> False | Some xs \<Rightarrow> xs \<noteq> [])"

definition get_list :: "'a list option \<Rightarrow> 'a list" where
  "get_list v = (case v of None \<Rightarrow> [] | Some xs \<Rightarrow> xs)"

text \<open>\<open>s.split(sep, 1)\<close>.\<close>

definition split_once :: "char \<Rightarrow> string \<Rightarrow> string list" where
  "split_once sep s =
     (if sep \<in> set s then [takeWhile (\<lambda>c. c \<noteq> sep) s, tl (dropWhile (\<lambda>c. c \<noteq> sep) s)]
      else [s])"

definition create_payload :: "string \<Rightarrow> contact_args \<Rightarrow> (string \<times> json) list" where
  "create_payload loc a =
     (let payload = [(''locationId'', JStr loc), (''email'', JStr (ca_email a))];
          payload = (if given (ca_phone a)
                     then dict_set payload ''phone'' (JStr (get_str (ca_phone a))) else payload);
          payload =
            (if given (ca_first_name a)
             then dict_set payload ''firstName'' (JStr (get_str (ca_first_name a)))
             else if given (ca_name a)
             then (case split_once CHR '' '' (py_strip (get_str (ca_name a))) of
                     [] \<Rightarrow> payload
                   | [first] \<Rightarrow> dict_set payload ''firstName'' (JStr first)
                   | first # rest # _ \<Rightarrow>
                       dict_set (dict_set payload ''firstName'' (JStr first))
                         ''lastName'' (JStr rest))
             else payload);
          payload = (if given (ca_last_name a)
                     then dict_set payload ''lastName'' (JStr (get_str (ca_last_name a)))
                     else payload);
          payload = (if given_list (ca_tags a)
                     then dict_set payload ''tags'' (JArr (map JStr (get_list (ca_tags a))))
                     else payload);
          payload = (if given_list (ca_custom_fields a)
                     then dict_set payload ''customField'' (JObj (get_list (ca_custom_fields a)))
                     else payload)
      in if given (ca_source a)
         then dict_set payload ''source'' (JStr (get_str (ca_source a)))
         else dict_set payload ''source'' (JStr ''WordPress Lead Form''))"

text \<open>The body a result records: the decoded JSON, or the text under \<open>raw_text\<close>.\<close>

definition recorded_body :: "http_response \<Rightarrow> json" where
  "recorded_body response =
     (case json_body response of
        Some data \<Rightarrow> data
      | None \<Rightarrow> JObj [(''raw_text'', JStr (body_text response))])"

text \<open>
  \<open>create_contact\<close>. \<open>body.get("contact", {}).get("id")\<close> raises \<open>AttributeError\<close>
  when the value under \<open>contact\<close> is not a dictionary, and no \<open>except\<close> clause of the
  method takes it.
\<close>

definition create_contact :: "ghl_run \<Rightarrow> contact_args \<Rightarrow> py_exn + ghl_result" where
  "create_contact run a =
     (let payload = create_payload (location_id run) a
      in case post_outcome run of
           Raises msg \<Rightarrow>
             Inr \<lparr>request_timestamp = utcnow run 0, request_body = JObj payload,
                  response_status_code = None, response_body = JNull,
                  response_timestamp = utcnow run 1, success = False,
                  error_message = Some msg, ghl_contact_id = JNull, result_note = None\<rparr>
         | Answers response \<Rightarrow>
            (let result =
                   \<lparr>request_timestamp = utcnow run 0, request_body = JObj payload,
                    response_status_code = Some (status_code response),
                    response_body = recorded_body response,
                    response_timestamp = utcnow run 1, success = False,
                    error_message = None, ghl_contact_id = JNull, result_note = None\<rparr>
             in if status_code response = 200 \<or> status_code response = 201
                then (let result = result\<lparr>success := True\<rparr>
                      in case response_body result of
                           JObj body \<Rightarrow>
                             (case dict_get body ''contact'' (JObj []) of
                                JObj contact \<Rightarrow>
                                  Inr (result\<lparr>ghl_contact_id :=
                                         (if truthy (dict_get contact ''id'' JNull)
                                          then dict_get contact ''id'' JNull
                                          else dict_get body ''id'' JNull)\<rparr>)
                              | _ \<Rightarrow> Inl (AttributeError ''get''))
                         | _ \<Rightarrow> Inr result)
                else if status_code response = 422
                then (let result = result
                            \<lparr>error_message := Some ''Validation error or duplicate contact''\<rparr>
                      in case response_body result of
                           JObj body \<Rightarrow>
                             if py_in ''duplicate'' (py_lower (str_of_json run (JObj body)))
                             then (let result = result\<lparr>error_message := Some ''Duplicate contact''\<rparr>
                                   in case dict_get body ''contact'' (JObj []) of
                                        JObj contact \<Rightarrow>
                                          (let existing_id = dict_get contact ''id'' JNull
                                           in if truthy existing_id
                                              then Inr (result\<lparr>ghl_contact_id := existing_id,
                                                               success := True\<rparr>)
                                              else Inr result)
                                      | _ \<Rightarrow> Inl (AttributeError ''get''))
                             else Inr result
                         | _ \<Rightarrow> Inr result)
                else if status_code response = 401
                then Inr (result\<lparr>error_message :=
                            Some ''Authentication failed - check access token''\<rparr>)
                else if status_code response = 400
                then Inr (result\<lparr>error_message := Some ''Bad request - check payload format''\<rparr>)
                else Inr (result\<lparr>error_message :=
                            Some (''API error: '' @ str_of_int (status_code response))\<rparr>)))"

definition update_payload ::
  "string option \<Rightarrow> string option \<Rightarrow> string option \<Rightarrow> string option \<Rightarrow>
   string list option \<Rightarrow> (string \<times> json) list option \<Rightarrow> (string \<times> json) list"
where
  "update_payload email' phone' first_name' last_name' tags custom_fields =
     (let payload = [];
          payload = (if given email' then dict_set payload ''email'' (JStr (get_str email'))
                     else payload);
          payload = (if given phone' then dict_set payload ''phone'' (JStr (get_str phone'))
                     else payload);
          payload = (if given first_name'
                     then dict_set payload ''firstName'' (JStr (get_str first_name')) else payload);
          payload = (if given last_name'
                     then dict_set payload ''lastName'' (JStr (get_str last_name')) else payload);
          payload = (if given_list tags
                     then dict_set payload ''tags'' (JArr (map JStr (get_list tags))) else payload)
      in if given_list custom_fields
         then dict_set payload ''customField'' (JObj (get_list custom_fields)) else payload)"

text \<open>\<open>update_contact\<close>; the contact id only enters the URL of the request.\<close>

definition update_contact ::
  "ghl_run \<Rightarrow> json \<Rightarrow> string option \<Rightarrow> string option \<Rightarrow> string option \<Rightarrow> string option \<Rightarrow>
   string list option \<Rightarrow> (string \<times> json) list option \<Rightarrow> ghl_result"
where
  "update_contact run contact_id email' phone' first_name' last_name' tags custom_fields =
     (let payload = update_payload email' phone' first_name' last_name' tags custom_fields
      in case put_outcome run of
           Raises msg \<Rightarrow>
             \<lparr>request_timestamp = utcnow run 2, request_body = JObj payload,
              response_status_code = None, response_body = JNull,
              response_timestamp = utcnow run 3, success = False,
              error_message = Some msg, ghl_contact_id = JNull, result_note = None\<rparr>
         | Answers response \<Rightarrow>
            (let result =
                   \<lparr>request_timestamp = utcnow run 2, request_body = JObj payload,
                    response_status_code = Some (status_code response),
                    response_body = recorded_body response,
                    response_timestamp = utcnow run 3, success = False,
                    error_message = None, ghl_contact_id = JNull, result_note = None\<rparr>
             in if status_code response = 200
                then result\<lparr>success := True\<rparr>
                else result\<lparr>error_message :=
                       Some (''Update failed: '' @ str_of_int (status_code response))\<rparr>))"

text \<open>The loop of \<open>get_contact_by_email\<close> over the contacts of the answer.\<close>

fun matching_contact :: "json list \<Rightarrow> string \<Rightarrow> py_exn + json option" where
  "matching_contact [] email' = Inr None"
| "matching_contact (contact # rest) email' =
     (case contact of
        JObj items \<Rightarrow>
          (case dict_get items ''email'' (JStr []) of
             JStr s \<Rightarrow>
               if py_lower s = py_lower email' then Inr (Some contact)
               else matching_contact rest email'
           | _ \<Rightarrow> Inl (AttributeError ''lower''))
      | _ \<Rightarrow> Inl (AttributeError ''get''))"

definition get_contact_by_email :: "ghl_run \<Rightarrow> string \<Rightarrow> py_exn + json option" where
  "get_contact_by_email run email' =
     (case get_outcome run of
        Raises msg \<Rightarrow> Inr None
      | Answers response \<Rightarrow>
          if status_code response = 200
          then (case json_body response of
                  None \<Rightarrow> Inr None
                | Some (JObj data) \<Rightarrow>
                    (let contacts = dict_get data ''contacts'' (JArr [])
                     in if truthy contacts
                        then (case contacts of
                                JArr cs \<Rightarrow> matching_contact cs email'
                              | JStr _ \<Rightarrow> Inl (AttributeError ''get'')
                              | JObj _ \<Rightarrow> Inl (AttributeError ''get'')
                              | _ \<Rightarrow> Inl (TypeError ''not iterable''))
                        else Inr None)
                | Some _ \<Rightarrow> Inl (AttributeError ''get''))
          else Inr None)"

definition create_or_update_contact :: "ghl_run \<Rightarrow> contact_args \<Rightarrow> py_exn + ghl_result" where
  "create_or_update_contact run a =
     (case create_contact run a of
        Inl e \<Rightarrow> Inl e
      | Inr result \<Rightarrow>
          if \<not> success result \<and>
             py_in ''duplicate''
               (py_lower (case error_message result of None \<Rightarrow> ''None'' | Some m \<Rightarrow> m))
          then (case get_contact_by_email run (ca_email a) of
                  Inl e \<Rightarrow> Inl e
                | Inr None \<Rightarrow> Inr result
                | Inr (Some existing) \<Rightarrow>
                    if truthy existing
                    then (case existing of
                            JObj items \<Rightarrow>
                              (let contact_id = dict_get items ''id'' JNull
                               in if truthy contact_id
                                  then Inr ((update_contact run contact_id None (ca_phone a)
                                               (ca_first_name a) (ca_last_name a) (ca_tags a)
                                               (ca_custom_fields a))
                                            \<lparr>ghl_contact_id := contact_id,
                                             result_note := Some ''Updated existing contact''\<rparr>)
                                  else Inr result)
                          | _ \<Rightarrow> Inl (AttributeError ''get''))
                    else Inr result)
          else Inr result)"


section \<open>sync\_to\_ghl.py: GHLSyncManager\<close>

record ghl_sync_manager =
  batch_size :: nat
  max_retries :: int
  retry_delay_minutes :: int
  manager_location_id :: string

text \<open>A row of the result of \<open>get_leads_to_sync\<close>: the columns of its \<open>SELECT\<close>.\<close>

record candidate =
  c_id :: nat
  c_email :: string
  c_phone :: "string option"
  c_first_name :: "string option"
  c_last_name :: "string option"
  c_signup_date :: "date option"
  c_quality_score :: "int option"
  c_ghl_sync_attempts :: int
  c_retry_count :: int
  c_last_status :: "sync_status option"
  c_next_retry_at :: "datetime option"

text \<open>The joined subquery \<open>latest_log\<close>: of the log rows of a lead, the one with the
  greatest \<open>id\<close> (\<open>ROW_NUMBER() OVER (PARTITION BY lead_id ORDER BY id DESC) = 1\<close>).\<close>

definition latest_log :: "log_row list \<Rightarrow> nat \<Rightarrow> log_row option" where
  "latest_log log lead =
     (case filter (\<lambda>g. g_lead_id g = lead) log of
        [] \<Rightarrow> None
      | g # gs \<Rightarrow> Some (fold (\<lambda>x best. if g_id best < g_id x then x else best) gs g))"

text \<open>The \<open>WHERE\<close> clause of the query.\<close>

definition needs_sync :: "int \<Rightarrow> datetime \<Rightarrow> log_row list \<Rightarrow> lead_row \<Rightarrow> bool" where
  "needs_sync retries now log l =
     ((l_ghl_synced l = False \<and> l_id l \<notin> set (map g_lead_id log))
      \<or> (case latest_log log (l_id l) of
            None \<Rightarrow> False
          | Some g \<Rightarrow>
              (g_status g = Failed \<or> g_status g = Retry)
              \<and> g_retry_count g < retries
              \<and> (case g_next_retry_at g of None \<Rightarrow> True | Some t \<Rightarrow> t \<le> now)))"

definition candidate_of :: "log_row list \<Rightarrow> lead_row \<Rightarrow> candidate" where
  "candidate_of log l =
     \<lparr>c_id = l_id l, c_email = l_email l, c_phone = l_phone l,
      c_first_name = l_first_name l, c_last_name = l_last_name l,
      c_signup_date = l_signup_date l, c_quality_score = l_quality_score l,
      c_ghl_sync_attempts = l_ghl_sync_attempts l,
      c_retry_count = (case latest_log log (l_id l) of None \<Rightarrow> 0 | Some g \<Rightarrow> g_retry_count g),
      c_last_status = map_option g_status (latest_log log (l_id l)),
      c_next_retry_at = (case latest_log log (l_id l) of None \<Rightarrow> None | Some g \<Rightarrow> g_next_retry_at g)\<rparr>"

text \<open>The \<open>ORDER BY\<close> clause as a sorting key: rows in \<open>retry\<close> status first, then
  the quality score downwards with \<open>NULL\<close> last, then the signup date upwards with
  \<open>NULL\<close> first. SQL leaves the order of rows with equal keys open; the model sorts
  stably.\<close>

definition sync_order :: "candidate \<Rightarrow> nat \<times> (nat \<times> int) \<times> date option" where
  "sync_order c =
     ((if c_last_status c = Some Retry then 0 else 1),
      (case c_quality_score c of None \<Rightarrow> (1, 0) | Some q \<Rightarrow> (0, - q)),
      c_signup_date c)"

definition get_leads_to_sync ::
  "ghl_sync_manager \<Rightarrow> db_run \<Rightarrow> db \<Rightarrow> nat option \<Rightarrow> py_exn + candidate list"
where
  "get_leads_to_sync m run d limit =
     (case connect_error run of
        Some e \<Rightarrow> Inl e
      | None \<Rightarrow>
         (case select_error run of
            Some e \<Rightarrow> Inl e
          | None \<Rightarrow>
              Inr (take (case limit of
                           None \<Rightarrow> batch_size m
                         | Some n \<Rightarrow> if n \<noteq> 0 then n else batch_size m)
                    (sort_key sync_order
                      (remdups
                        (map (candidate_of (ghl_sync_log d))
                          (filter (needs_sync (max_retries m) (db_now run) (ghl_sync_log d))
                            (leads d))))))))"

text \<open>\<open>SELECT MAX(retry_count) FROM ghl_sync_log WHERE lead_id = %s\<close>, then \<open>or 0\<close>.\<close>

definition current_retry :: "log_row list \<Rightarrow> nat \<Rightarrow> int" where
  "current_retry log lead =
     (case filter (\<lambda>g. g_lead_id g = lead) log of
        [] \<Rightarrow> 0
      | g # gs \<Rightarrow> fold max (map g_retry_count gs) (g_retry_count g))"

text \<open>The two \<open>UPDATE leads\<close> statements of \<open>log_sync_attempt\<close>.\<close>

definition mark_synced :: "nat \<Rightarrow> json \<Rightarrow> datetime \<Rightarrow> lead_row list \<Rightarrow> lead_row list" where
  "mark_synced lead contact now rows =
     map (\<lambda>l. if l_id l = lead
               then l\<lparr>l_ghl_synced := True, l_ghl_synced_at := Some now,
                      l_ghl_contact_id := contact,
                      l_ghl_sync_attempts := l_ghl_sync_attempts l + 1,
                      l_updated_at := now\<rparr>
               else l) rows"

definition count_attempt :: "nat \<Rightarrow> datetime \<Rightarrow> lead_row list \<Rightarrow> lead_row list" where
  "count_attempt lead now rows =
     map (\<lambda>l. if l_id l = lead
               then l\<lparr>l_ghl_sync_attempts := l_ghl_sync_attempts l + 1, l_updated_at := now\<rparr>
               else l) rows"

text \<open>
  \<open>log_sync_attempt\<close>: \<open>py_now\<close> is the reading of \<open>datetime.now()\<close>. An exception
  inside the \<open>try\<close> is logged and rolled back; the foreign key of \<open>ghl_sync_log\<close>
  refuses a row for a lead that is not in \<open>leads\<close>. Only what \<open>get_db_connection\<close>
  raises leaves the method.
\<close>

definition log_sync_attempt ::
  "ghl_sync_manager \<Rightarrow> datetime \<Rightarrow> db_run \<Rightarrow> db \<Rightarrow> nat \<Rightarrow> string \<Rightarrow> ghl_result \<Rightarrow> py_exn + db"
where
  "log_sync_attempt m py_now run d lead_id email' result =
     (case connect_error run of
        Some e \<Rightarrow> Inl e
      | None \<Rightarrow>
         (let status = (if success result then Success else Failed);
              next_retry = (if success result then None
                            else Some (py_now + minutes (retry_delay_minutes m)))
          in case select_error run of
               Some e \<Rightarrow> Inr d
             | None \<Rightarrow>
                (let retry = current_retry (ghl_sync_log d) lead_id
                 in if write_error run \<noteq> None \<or> lead_id \<notin> set (map l_id (leads d))
                    then Inr d
                    else Inr (d
                      \<lparr>ghl_sync_log := ghl_sync_log d @
                         [\<lparr>g_id = log_auto_increment d,
                           g_lead_id = lead_id,
                           g_email = email',
                           g_request_timestamp = request_timestamp result,
                           g_request_body = request_body result,
                           g_response_status_code = response_status_code result,
                           g_response_body = response_body result,
                           g_response_timestamp = response_timestamp result,
                           g_status = status,
                           g_error_message = error_message result,
                           g_retry_count = retry + (if status = Failed then 1 else 0),
                           g_next_retry_at = next_retry,
                           g_ghl_contact_id = ghl_contact_id result,
                           g_ghl_location_id = manager_location_id m,
                           g_created_at = db_now run,
                           g_updated_at = db_now run\<rparr>],
                       log_auto_increment := log_auto_increment d + 1,
                       leads :=
                         (if status = Success \<and> truthy (ghl_contact_id result)
                          then mark_synced lead_id (ghl_contact_id result) (db_now run) (leads d)
                          else count_attempt lead_id (db_now run) (leads d))\<rparr>))))"

text \<open>The formatting of dates that \<open>sync_lead\<close> asks of the standard library.\<close>

record date_format =
  strftime_year_month :: "date \<Rightarrow> string"
  isoformat :: "date \<Rightarrow> string"

text \<open>
  What \<open>sync_lead\<close> meets for one lead: the answers of the destination, the reading
  of \<open>datetime.now()\<close>, the database as it behaves for the logging of the attempt, and
  as it behaves when the \<open>except\<close> clause logs again.
\<close>

record attempt_world =
  ghl_of :: ghl_run
  now_of :: datetime
  log_run :: db_run
  relog_run :: db_run

definition quality_tag :: "int \<Rightarrow> string" where
  "quality_tag q =
     (if 80 \<le> q then ''high-quality'' else if 50 \<le> q then ''medium-quality''
      else ''low-quality'')"

text \<open>The \<open>try\<close> block of \<open>sync_lead\<close>. The comparison of a \<open>NULL\<close> quality score
  with 80 raises \<open>TypeError\<close>, \<open>.strftime\<close> on a \<open>NULL\<close> signup date raises
  \<open>AttributeError\<close>.\<close>

definition sync_lead_try ::
  "ghl_sync_manager \<Rightarrow> date_format \<Rightarrow> attempt_world \<Rightarrow> db \<Rightarrow> candidate \<Rightarrow> py_exn + bool \<times> db"
where
  "sync_lead_try m fmt w d lead =
     (case c_quality_score lead of
        None \<Rightarrow> Inl (TypeError ''>='')
      | Some score \<Rightarrow>
         (case c_signup_date lead of
            None \<Rightarrow> Inl (AttributeError ''strftime'')
          | Some signed \<Rightarrow>
             (let tags = [quality_tag score, ''wordpress-lead'',
                          ''signup-'' @ strftime_year_month fmt signed];
                  custom_fields =
                    [(''signup_date'', JStr (isoformat fmt signed)),
                     (''quality_score'', JStr (str_of_int score)),
                     (''source'', JStr ''WordPress Sweepstakes'')]
              in case create_or_update_contact (ghl_of w)
                        \<lparr>ca_email = c_email lead, ca_phone = c_phone lead,
                         ca_first_name = c_first_name lead, ca_last_name = c_last_name lead,
                         ca_name = None, ca_tags = Some tags,
                         ca_custom_fields = Some custom_fields,
                         ca_source = Some ''WordPress Lead Form''\<rparr> of
                   Inl e \<Rightarrow> Inl e
                 | Inr result \<Rightarrow>
                    (case log_sync_attempt m (now_of w) (log_run w) d (c_id lead)
                            (c_email lead) result of
                       Inl e \<Rightarrow> Inl e
                     | Inr d' \<Rightarrow> Inr (success result, d')))))"

text \<open>\<open>sync_lead\<close>: the \<open>except\<close> clause logs a failed attempt made of the exception
  and returns \<open>False\<close>; what that second logging raises leaves the method.\<close>

definition sync_lead ::
  "ghl_sync_manager \<Rightarrow> date_format \<Rightarrow> attempt_world \<Rightarrow> db \<Rightarrow> candidate \<Rightarrow> (py_exn + bool) \<times> db"
where
  "sync_lead m fmt w d lead =
     (case sync_lead_try m fmt w d lead of
        Inr (ok, d') \<Rightarrow> (Inr ok, d')
      | Inl e \<Rightarrow>
         (let error_result =
                \<lparr>request_timestamp = utcnow (ghl_of w) 4,
                 request_body = JObj [(''email'', JStr (c_email lead))],
                 response_status_code = None, response_body = JNull,
                 response_timestamp = utcnow (ghl_of w) 5, success = False,
                 error_message = Some (str_exn e), ghl_contact_id = JNull,
                 result_note = None\<rparr>
          in case log_sync_attempt m (now_of w) (relog_run w) d (c_id lead) (c_email lead)
                    error_result of
               Inl e' \<Rightarrow> (Inl e', d)
             | Inr d' \<Rightarrow> (Inr False, d')))"

text \<open>The loop of \<open>sync_batch\<close>; the counters are \<open>success\<close> and \<open>failed\<close>, and the
  world of a lead is found by its id.\<close>

fun sync_each ::
  "ghl_sync_manager \<Rightarrow> date_format \<Rightarrow> (nat \<Rightarrow> attempt_world) \<Rightarrow> candidate list \<Rightarrow>
   nat \<times> nat \<Rightarrow> db \<Rightarrow> (py_exn + nat \<times> nat) \<times> db"
where
  "sync_each m fmt world [] counts d = (Inr counts, d)"
| "sync_each m fmt world (lead # rest) (succeeded, failed) d =
     (case sync_lead m fmt (world (c_id lead)) d lead of
        (Inl e, d') \<Rightarrow> (Inl e, d')
      | (Inr True, d') \<Rightarrow> sync_each m fmt world rest (succeeded + 1, failed) d'
      | (Inr False, d') \<Rightarrow> sync_each m fmt world rest (succeeded, failed + 1) d')"

text \<open>\<open>sync_batch\<close> returns the counters \<open>total\<close>, \<open>success\<close> and \<open>failed\<close>.\<close>

definition sync_batch ::
  "ghl_sync_manager \<Rightarrow> date_format \<Rightarrow> (nat \<Rightarrow> attempt_world) \<Rightarrow> db_run \<Rightarrow> db \<Rightarrow> nat option \<Rightarrow>
   (py_exn + nat \<times> nat \<times> nat) \<times> db"
where
  "sync_batch m fmt world run d limit =
     (case get_leads_to_sync m run d limit of
        Inl e \<Rightarrow> (Inl e, d)
      | Inr found \<Rightarrow>
          if found = [] then (Inr (0, 0, 0), d)
          else (case sync_each m fmt world found (0, 0) d of
                  (Inl e, d') \<Rightarrow> (Inl e, d')
                | (Inr (succeeded, failed), d') \<Rightarrow>
                    (Inr (length found, succeeded, failed), d')))"

text \<open>The \<open>WHERE\<close> clause and the \<open>UPDATE ghl_sync_log\<close> of \<open>retry_failed_leads\<close>;
  the column \<open>updated_at\<close> follows every update of a row.\<close>

definition to_retry :: "int \<Rightarrow> date \<Rightarrow> log_row \<Rightarrow> bool" where
  "to_retry retries day g =
     (date_of (g_request_timestamp g) = day \<and> g_status g = Failed \<and> g_retry_count g < retries)"

definition mark_for_retry :: "int \<Rightarrow> date \<Rightarrow> datetime \<Rightarrow> log_row list \<Rightarrow> log_row list" where
  "mark_for_retry retries day now log =
     map (\<lambda>g. if to_retry retries day g
               then g\<lparr>g_status := Retry, g_next_retry_at := Some now, g_updated_at := now\<rparr>
               else g) log"

text \<open>\<open>retry_failed_leads\<close> has no \<open>except\<close> clause: what the connection or the
  update raises leaves the method.\<close>

definition retry_failed_leads ::
  "ghl_sync_manager \<Rightarrow> date_format \<Rightarrow> (nat \<Rightarrow> attempt_world) \<Rightarrow> datetime \<Rightarrow> db_run \<Rightarrow> db_run \<Rightarrow>
   db \<Rightarrow> date option \<Rightarrow> (py_exn + nat \<times> nat \<times> nat) \<times> db"
where
  "retry_failed_leads m fmt world py_now run batch_run d day =
     (let day = (case day of None \<Rightarrow> date_of py_now | Some given_day \<Rightarrow> given_day)
      in case connect_error run of
           Some e \<Rightarrow> (Inl e, d)
         | None \<Rightarrow>
            (case write_error run of
               Some e \<Rightarrow> (Inl e, d)
             | None \<Rightarrow>
                (let marked_count =
                       length (filter (to_retry (max_retries m) day) (ghl_sync_log d));
                     d = d\<lparr>ghl_sync_log :=
                             mark_for_retry (max_retries m) day (db_now run) (ghl_sync_log d)\<rparr>
                 in if 0 < marked_count
                    then sync_batch m fmt world batch_run d (Some marked_count)
                    else (Inr (0, 0, 0), d))))"


section \<open>Fetching from the source, and the window of a cycle\<close>

datatype log_level = INFO | WARNING | ERROR

type_synonym log_record = "log_level \<times> string"

text \<open>\<open>response.raise_for_status()\<close> raises for the status codes 400 to 599.\<close>

definition raise_for_status :: "http_response \<Rightarrow> py_exn option" where
  "raise_for_status response =
     (if 400 \<le> status_code response \<and> status_code response < 600
      then Some (HTTPError (str_of_int (status_code response))) else None)"

text \<open>\<open>len(x)\<close> on a decoded value.\<close>

fun py_len :: "json \<Rightarrow> py_exn + nat" where
  "py_len (JArr xs) = Inr (length xs)"
| "py_len (JStr s) = Inr (length s)"
| "py_len (JObj kvs) = Inr (length kvs)"
| "py_len _ = Inl (TypeError ''len'')"

text \<open>The \<open>try\<close> block of \<open>UnifiedSyncService.fetch_wordpress_leads\<close>: the leads and
  the log line of the success.\<close>

definition fetch_try :: "http_outcome \<Rightarrow> string \<Rightarrow> py_exn + json \<times> log_record" where
  "fetch_try outcome since_str =
     (case outcome of
        Raises msg \<Rightarrow> Inl (RequestException msg)
      | Answers response \<Rightarrow>
         (case raise_for_status response of
            Some e \<Rightarrow> Inl e
          | None \<Rightarrow>
             (case json_body response of
                None \<Rightarrow> Inl (JSONDecodeError (body_text response))
              | Some (JObj data) \<Rightarrow>
                 (let found = dict_get data ''leads'' (JArr [])
                  in case py_len found of
                       Inl e \<Rightarrow> Inl e
                     | Inr n \<Rightarrow>
                         Inr (found,
                              (INFO, ''Fetched '' @ str_of_nat n @ '' leads from WordPress since ''
                                      @ since_str)))
              | Some _ \<Rightarrow> Inl (AttributeError ''get''))))"

text \<open>\<open>fetch_wordpress_leads\<close>: \<open>except Exception\<close> takes every exception of the block.
  The method returns the leads and what it logged.\<close>

definition fetch_wordpress_leads ::
  "(datetime \<Rightarrow> string) \<Rightarrow> http_outcome \<Rightarrow> datetime \<Rightarrow> json \<times> log_record list"
where
  "fetch_wordpress_leads strftime' outcome since_datetime =
     (case fetch_try outcome (strftime' since_datetime) of
        Inr (found, line) \<Rightarrow> (found, [line])
      | Inl e \<Rightarrow> (JArr [], [(ERROR, ''Failed to fetch WordPress leads: '' @ str_exn e)]))"

text \<open>The query parameters of \<open>WordPressSync.fetch_leads\<close>.\<close>

definition fetch_params ::
  "(datetime \<Rightarrow> string) \<Rightarrow> datetime option \<Rightarrow> int option \<Rightarrow> int \<Rightarrow> (string \<times> json) list"
where
  "fetch_params strftime' since last_id limit =
     (let params = [(''limit'', JNum limit)];
          params = (case since of
                      None \<Rightarrow> params
                    | Some t \<Rightarrow> dict_set params ''since'' (JStr (strftime' t)))
      in case last_id of
           None \<Rightarrow> params
         | Some i \<Rightarrow> if i \<noteq> 0 then dict_set params ''last_id'' (JNum i) else params)"

text \<open>\<open>WordPressSync.fetch_leads\<close>: \<open>except requests.RequestException\<close> logs the
  error and raises it again; any other exception leaves the method unlogged. The
  outcome is the answer to the request made with \<^const>\<open>fetch_params\<close>.\<close>

definition fetch_leads :: "http_outcome \<Rightarrow> (py_exn + json) \<times> log_record list" where
  "fetch_leads outcome =
     (case outcome of
        Raises msg \<Rightarrow>
          (Inl (RequestException msg), [(ERROR, ''Failed to fetch leads from WordPress: '' @ msg)])
      | Answers response \<Rightarrow>
         (case raise_for_status response of
            Some e \<Rightarrow>
              (Inl e, [(ERROR, ''Failed to fetch leads from WordPress: '' @ str_exn e)])
          | None \<Rightarrow>
             (case json_body response of
                None \<Rightarrow>
                  (Inl (JSONDecodeError (body_text response)),
                   [(ERROR, ''Failed to fetch leads from WordPress: '' @ body_text response)])
              | Some (JObj data) \<Rightarrow> (Inr (dict_get data ''leads'' (JArr [])), [])
              | Some _ \<Rightarrow> (Inl (AttributeError ''get''), []))))"

text \<open>The first statements of \<open>run_sync_cycle\<close>: the lower bound of the fetch window
  of a cycle that starts at \<open>start_time\<close>, for a polling interval in minutes.\<close>

definition since_datetime :: "int \<Rightarrow> datetime \<Rightarrow> datetime" where
  "since_datetime sync_interval start_time = start_time - minutes (sync_interval + 1)"


section \<open>Notions and inputs of the statements\<close>

text \<open>The rows of \<open>leads\<close> that the server finds for an identity (the rows whose
  email equals it under the collation), and a database with the one column \<open>updated_at\<close>
  of \<open>leads\<close> blanked, to say that nothing else changed.\<close>

definition identity_rows :: "string \<Rightarrow> db \<Rightarrow> lead_row list" where
  "identity_rows e d = filter (email_matches d e) (leads d)"

definition except_updated_at :: "db \<Rightarrow> db" where
  "except_updated_at d = d\<lparr>leads := map (\<lambda>r. r\<lparr>l_updated_at := 0\<rparr>) (leads d)\<rparr>"

text \<open>The scenario of the specification: the source sends one record with the email
  \<open>A@Test.com\<close> and the native id 42. The validators of the scenario accept an address
  with an \<open>@\<close> as it is and find no phone number valid; the database raises nothing.\<close>

definition scenario_env :: cleaner_env where
  "scenario_env =
     \<lparr>validate_email = (\<lambda>s. if CHR ''@'' \<in> set s then Some s else None),
      phonenumbers = (\<lambda>p region. InvalidNumber),
      strptime = (\<lambda>s. None), now_first = 0, now_second = 0\<rparr>"

definition scenario_lead :: wp_lead where
  "scenario_lead =
     \<lparr>own = \<lparr>raw_email = Some ''A@Test.com'', raw_phone = Some ''5551234567'',
             raw_first_name = None, raw_last_name = None,
             raw_signup_date = Some ''2025-01-01 10:00:00'', raw_id = Some (IdInt 42)\<rparr>,
      raw_data = None\<rparr>"

definition working_db :: "datetime \<Rightarrow> db_run" where
  "working_db now =
     \<lparr>connect_error = None, select_error = None, write_error = None, db_now = now\<rparr>"

text \<open>An empty database whose collation ignores the case of letters and the spaces at
  the end, and one in which the first record of the scenario is stored.\<close>

definition empty_db :: db where
  "empty_db =
     \<lparr>leads = [], leads_auto_increment = 1, ghl_sync_log = [], log_auto_increment = 1,
      email_collation = (\<lambda>s. py_lower (rev (dropWhile (\<lambda>c. c = CHR '' '') (rev s))))\<rparr>"

definition stored_db :: db where
  "stored_db = snd (save_lead_to_mysql scenario_env (working_db 0) empty_db scenario_lead)"

text \<open>The scenario of a duplicate: the destination answers the creation with 422 and
  a body that says \<open>duplicate\<close> and names no contact, the search finds the contact
  \<open>C-1\<close>, and the update is answered as given. \<open>str_of_json\<close> is Python's rendering of
  the one body it is applied to.\<close>

definition answer :: "int \<Rightarrow> http_outcome" where
  "answer code = Answers \<lparr>status_code = code, json_body = Some (JObj []), body_text = []\<rparr>"

definition duplicate_run :: "http_outcome \<Rightarrow> ghl_run" where
  "duplicate_run put =
     \<lparr>location_id = ''loc-1'',
      str_of_json = (\<lambda>body. ''{'message': 'This is a duplicate contact'}''),
      post_outcome = Answers
        \<lparr>status_code = 422,
         json_body = Some (JObj [(''message'', JStr ''This is a duplicate contact'')]),
         body_text = []\<rparr>,
      get_outcome = Answers
        \<lparr>status_code = 200,
         json_body = Some (JObj [(''contacts'',
           JArr [JObj [(''id'', JStr ''C-1''), (''email'', JStr ''a@test.com'')]])]),
         body_text = []\<rparr>,
      put_outcome = put,
      utcnow = (\<lambda>n. int n)\<rparr>"

definition scenario_contact :: contact_args where
  "scenario_contact =
     \<lparr>ca_email = ''a@test.com'', ca_phone = Some ''5551234567'', ca_first_name = None,
      ca_last_name = None, ca_name = None, ca_tags = None, ca_custom_fields = None,
      ca_source = None\<rparr>"

text \<open>A failure of the transport as the claim words it: an exception, or a status
  outside 200..299.\<close>

definition not_2xx :: "http_outcome \<Rightarrow> bool" where
  "not_2xx outcome =
     (case outcome of
        Raises msg \<Rightarrow> True
      | Answers response \<Rightarrow> status_code response < 200 \<or> 300 \<le> status_code response)"

definition scenario_strftime :: "datetime \<Rightarrow> string" where
  "scenario_strftime t = ''2025-01-01 09:49:00''"

definition multiple_choices :: http_outcome where
  "multiple_choices =
     Answers \<lparr>status_code = 300,
              json_body = Some (JObj [(''leads'', JArr [JObj [(''email'', JStr ''a@test.com'')]])]),
              body_text = []\<rparr>"

text \<open>The lower bound of the window as the claim words it: one polling interval below
  the start of the previous cycle, which is one polling interval below this start.\<close>

definition since_as_specified :: "int \<Rightarrow> datetime \<Rightarrow> datetime" where
  "since_as_specified sync_interval start_time =
     start_time - minutes sync_interval - minutes sync_interval"

text \<open>A row of the ledger with the three columns blanked that the sweep of
  \<open>retry_failed_leads\<close> writes.\<close>

definition sweep_frame :: "log_row \<Rightarrow> log_row" where
  "sweep_frame g = g\<lparr>g_status := Pending, g_next_retry_at := None, g_updated_at := 0\<rparr>"

text \<open>A store with the lead of the scenario and one failed attempt to deliver it, made
  at time 0 with a retry count of 1 and the next retry due at minute 30; a manager that
  allows a number of retries; a destination that times out.\<close>

definition failed_attempt :: log_row where
  "failed_attempt =
     \<lparr>g_id = 1, g_lead_id = 1, g_email = ''a@test.com'', g_request_timestamp = 0,
      g_request_body = JObj [(''email'', JStr ''a@test.com'')],
      g_response_status_code = None, g_response_body = JNull, g_response_timestamp = 0,
      g_status = Failed, g_error_message = Some ''timed out'', g_retry_count = 1,
      g_next_retry_at = Some (minutes 30), g_ghl_contact_id = JNull,
      g_ghl_location_id = ''loc-1'', g_created_at = 0, g_updated_at = 0\<rparr>"

definition failed_db :: db where
  "failed_db = stored_db\<lparr>ghl_sync_log := [failed_attempt], log_auto_increment := 2\<rparr>"

definition manager :: "int \<Rightarrow> ghl_sync_manager" where
  "manager retries =
     \<lparr>batch_size = 10, max_retries = retries, retry_delay_minutes = 30,
      manager_location_id = ''loc-1''\<rparr>"

definition timeout_world :: "nat \<Rightarrow> attempt_world" where
  "timeout_world lead =
     \<lparr>ghl_of = (duplicate_run (answer 200))\<lparr>post_outcome := Raises ''timed out''\<rparr>,
      now_of = minutes 60, log_run = working_db (minutes 60),
      relog_run = working_db (minutes 60)\<rparr>"

definition scenario_format :: date_format where
  "scenario_format =
     \<lparr>strftime_year_month = (\<lambda>day. ''2025-01''), isoformat = (\<lambda>day. ''2025-01-01'')\<rparr>"


section \<open>Properties\<close>

lemma split_char_nonempty: "split_char sep s \<noteq> []"
  by (induction s) (auto split: list.splits)

subsection \<open>The quality score\<close>

lemma calculate_quality_score_eq:
  "calculate_quality_score lead =
     (if email lead = Null then Inl (AttributeError ''split'')
      else if source lead = Null then Inl (AttributeError ''lower'')
      else Inr (min (max (50
         + (if email_valid lead = Val True then 20 else 0)
         + (if 10 \<le> length (text_of (phone_cleaned lead)) then 15 else 0)
         + (if phone_valid lead = Val True then 10 else 0)
         + (if py_lower (last (split_char CHR ''@'' (text_of (email lead)))) \<notin> set generic_domains
            then 10 else 0)
         - (if py_lower (text_of (source lead)) \<in> set bad_sources then 5 else 0)) 0) 100))"
proof -
  have valid: "(get v = Some True) = (v = Val True)" for v :: "bool entry"
    by (cases v) (simp_all add: get_def)
  have len: "(case get (phone_cleaned lead) of None \<Rightarrow> False | Some p \<Rightarrow> p \<noteq> [] \<and> 10 \<le> length p)
      = (10 \<le> length (text_of (phone_cleaned lead)))"
    by (cases "phone_cleaned lead") (auto simp: get_def text_of_def)
  show ?thesis
    unfolding calculate_quality_score_def Let_def len valid
    by (cases "email lead"; cases "source lead") (simp_all add: get_or_def text_of_def)
qed

lemma nine_digit_scores:
  "calculate_quality_score nine_digit_lead = Inr 100" "score_as_specified nine_digit_lead = 90"
  by code_simp+

lemma capitals_scores:
  "calculate_quality_score capitals_lead = Inr 75" "score_as_specified capitals_lead = 80"
  by code_simp+

lemma no_email_scores:
  "calculate_quality_score no_email_lead = Inl (AttributeError ''split'')"
  "score_as_specified no_email_lead = 60"
  by code_simp+

text \<open>
  C2, as stated: for every input record the score is the clamped sum in which the phone
  bonus is for a number of at least ten digits and the penalty is for the source labels
  empty, "test" and "unknown". The code differs from that reading on three inputs. The
  cleaned number \<open>+298201234\<close> has ten characters and nine digits, and the code counts
  characters: it adds 15. The label \<open>TEST\<close> is none of the three labels, and the code
  lower-cases the label before it looks it up: it subtracts 5. And for a record whose
  key \<open>email\<close> holds \<open>None\<close> the code raises \<open>AttributeError\<close> and gives no score.
\<close>

theorem quality_score_differs_from_specified:
  "calculate_quality_score nine_digit_lead \<noteq> Inr (score_as_specified nine_digit_lead)
   \<and> calculate_quality_score capitals_lead \<noteq> Inr (score_as_specified capitals_lead)
   \<and> calculate_quality_score no_email_lead \<noteq> Inr (score_as_specified no_email_lead)"
  by (simp add: nine_digit_scores capitals_scores no_email_scores)

text \<open>
  C2, amended: for a record whose keys \<open>email\<close> and \<open>source\<close> do not hold \<open>None\<close>
  (either may be absent), the score is the clamp to [0,100] of 50, plus 20 for a valid
  email, plus 15 when the cleaned phone string has at least ten characters, plus 10 for
  a valid phone, plus 10 when the lower-cased text after the last \<open>@\<close> of the email is
  not one of the four generic domains, minus 5 when the lower-cased source label is
  empty, "test" or "unknown"; for a record in which one of the two keys holds \<open>None\<close>
  the scorer raises \<open>AttributeError\<close>. A score is never below 45, and a record that
  earns the four bonuses scores exactly 100 whatever its source label.
\<close>

theorem calculate_quality_score_formula:
  "calculate_quality_score lead =
     (if email lead = Null then Inl (AttributeError ''split'')
      else if source lead = Null then Inl (AttributeError ''lower'')
      else Inr (min (max (50
         + (if email_valid lead = Val True then 20 else 0)
         + (if 10 \<le> length (text_of (phone_cleaned lead)) then 15 else 0)
         + (if phone_valid lead = Val True then 10 else 0)
         + (if py_lower (last (split_char CHR ''@'' (text_of (email lead)))) \<notin> set generic_domains
            then 10 else 0)
         - (if py_lower (text_of (source lead)) \<in> set bad_sources then 5 else 0)) 0) 100))
   \<and> (\<forall>score. calculate_quality_score lead = Inr score \<longrightarrow> 45 \<le> score \<and> score \<le> 100)
   \<and> (email lead \<noteq> Null \<and> source lead \<noteq> Null \<and> email_valid lead = Val True
        \<and> 10 \<le> length (text_of (phone_cleaned lead)) \<and> phone_valid lead = Val True
        \<and> py_lower (last (split_char CHR ''@'' (text_of (email lead)))) \<notin> set generic_domains
       \<longrightarrow> calculate_quality_score lead = Inr 100)"
  unfolding calculate_quality_score_eq by (simp split: if_splits)

theorem calculate_quality_score_formula_witness:
  "calculate_quality_score complete_lead = Inr 100"
proof -
  have bonuses:
    "email complete_lead \<noteq> Null \<and> source complete_lead \<noteq> Null
     \<and> email_valid complete_lead = Val True
     \<and> 10 \<le> length (text_of (phone_cleaned complete_lead))
     \<and> phone_valid complete_lead = Val True
     \<and> py_lower (last (split_char CHR ''@'' (text_of (email complete_lead))))
         \<notin> set generic_domains"
    by code_simp
  from calculate_quality_score_formula [of complete_lead] bonuses show ?thesis
    by blast
qed

subsection \<open>Cleaning an email twice\<close>

text \<open>
  What the second application of \<open>clean_email\<close> asks of the validator, which is the
  third-party library and a parameter here: the address it reported is not empty, is
  already stripped and lower-case, and is accepted unchanged. Whether the library does
  so is not a fact of this repository.
\<close>

lemma clean_email_again:
  assumes "clean_email v e = (n, True)"
    and "n \<noteq> []" and "py_lower (py_strip n) = n" and "v n = Some n"
  shows "clean_email v n = (n, True)"
  using assms by (simp add: clean_email_def)

subsection \<open>The score that process\_lead stores\<close>

lemma process_lead_shape:
  "\<exists>p. process_lead env lead =
          (case calculate_quality_score p of
             Inl exn \<Rightarrow> Inl exn
           | Inr score \<Rightarrow> Inr (p\<lparr>quality_score := Val score\<rparr>))
       \<and> phone_cleaned p = Absent \<and> source p = Val ''wordpress''
       \<and> (\<exists>e. email p = Val e)"
  unfolding process_lead_def Let_def case_prod_beta
  apply (rule exI, rule conjI, rule refl)
  apply (simp add: empty_dict_def split: option.splits)
  done

lemma process_lead_returns:
  "\<exists>processed. process_lead env lead = Inr processed
     \<and> phone_cleaned processed = Absent
     \<and> source processed = Val ''wordpress''
     \<and> (\<exists>e. email processed = Val e)
     \<and> quality_score processed =
         Val (50 + (if email_valid processed = Val True then 20 else 0)
                 + (if phone_valid processed = Val True then 10 else 0)
                 + (if py_lower (last (split_char CHR ''@'' (text_of (email processed))))
                         \<notin> set generic_domains then 10 else 0))"
proof -
  from process_lead_shape [of env lead] obtain p e where
    shape: "process_lead env lead =
          (case calculate_quality_score p of
             Inl exn \<Rightarrow> Inl exn
           | Inr score \<Rightarrow> Inr (p\<lparr>quality_score := Val score\<rparr>))"
    and p: "phone_cleaned p = Absent" "source p = Val ''wordpress''" "email p = Val e"
    by blast
  have wp: "py_lower ''wordpress'' \<notin> set bad_sources" by code_simp
  have "calculate_quality_score p =
      Inr (50 + (if email_valid p = Val True then 20 else 0)
              + (if phone_valid p = Val True then 10 else 0)
              + (if py_lower (last (split_char CHR ''@'' (text_of (email p))))
                      \<notin> set generic_domains then 10 else 0))"
    unfolding calculate_quality_score_eq using p wp by (simp add: text_of_def)
  with shape p show ?thesis by simp
qed

text \<open>
  C10: \<open>process_lead\<close> returns for every record, and the record it builds never has
  the key \<open>phone_cleaned\<close> and always has the source \<open>wordpress\<close>, so its score is 50
  plus 20 for a valid email, plus 10 for a valid phone, plus 10 for a domain that is not
  generic: neither the 15 of the phone bonus nor the 5 of the source penalty is ever
  part of it, and the score is one of 50, 60, 70, 80 and 90. The two \<open>process_lead\<close>
  methods of the repository have the same text, and the one definition stands for both.
\<close>

theorem process_lead_score_range:
  "\<exists>processed. process_lead env lead = Inr processed
     \<and> phone_cleaned processed = Absent
     \<and> source processed = Val ''wordpress''
     \<and> quality_score processed =
         Val (50 + (if email_valid processed = Val True then 20 else 0)
                 + (if phone_valid processed = Val True then 10 else 0)
                 + (if py_lower (last (split_char CHR ''@'' (text_of (email processed))))
                         \<notin> set generic_domains then 10 else 0))
     \<and> (\<exists>s. quality_score processed = Val s \<and> s \<in> {50, 60, 70, 80, 90})"
proof -
  from process_lead_returns [of env lead] obtain processed where
    p: "process_lead env lead = Inr processed"
       "phone_cleaned processed = Absent"
       "source processed = Val ''wordpress''"
       "quality_score processed =
         Val (50 + (if email_valid processed = Val True then 20 else 0)
                 + (if phone_valid processed = Val True then 10 else 0)
                 + (if py_lower (last (split_char CHR ''@'' (text_of (email processed))))
                         \<notin> set generic_domains then 10 else 0))"
    by blast
  from p(4) have "\<exists>s. quality_score processed = Val s \<and> s \<in> {50, 60, 70, 80, 90}"
    by simp
  with p show ?thesis by blast
qed

subsection \<open>The upsert by identity\<close>

lemma find_none_filter: "find P xs = None \<longleftrightarrow> filter P xs = []"
  by (induction xs) auto

lemma find_filter_hd: "filter P xs = x # ys \<Longrightarrow> find P xs = Some x"
  by (induction xs) (auto split: if_splits)

lemma email_matches_leads [simp]: "email_matches (d\<lparr>leads := rows\<rparr>) = email_matches d"
  by (simp add: email_matches_def fun_eq_iff)

lemma email_matches_counter [simp]:
  "email_matches (d\<lparr>leads_auto_increment := n\<rparr>) = email_matches d"
  by (simp add: email_matches_def fun_eq_iff)

lemma touch_lead_emails:
  "filter (email_matches d e) (touch_lead i t rows)
     = touch_lead i t (filter (email_matches d e) rows)"
  by (induction rows) (auto simp: touch_lead_def email_matches_def)

lemma length_touch_lead: "length (touch_lead i t rows) = length rows"
  by (simp add: touch_lead_def)

lemma touch_lead_frame:
  "map (\<lambda>r. r\<lparr>l_updated_at := u\<rparr>) (touch_lead i t rows) = map (\<lambda>r. r\<lparr>l_updated_at := u\<rparr>) rows"
  by (induction rows) (auto simp: touch_lead_def)

lemma inserted_row_matches:
  "email p = Val e \<Longrightarrow> email_matches d e (inserted_row i t p)"
  by (simp add: inserted_row_def email_matches_def text_of_def)

lemma inserted_row_other:
  "email p = Val e' \<Longrightarrow> email_matches d e (inserted_row i t p) = (email_collation d e' = email_collation d e)"
  by (simp add: inserted_row_def email_matches_def text_of_def)

lemma matches_trans:
  "email_collation d e' = email_collation d e \<Longrightarrow> email_matches d e' = email_matches d e"
  by (simp add: email_matches_def fun_eq_iff)

lemma save_unified_count:
  "length (identity_rows e (snd (save_lead_to_mysql env run d lead)))
     \<le> max 1 (length (identity_rows e d))"
proof (cases "process_lead env lead")
  case (Inl exn)
  then show ?thesis by (simp add: save_lead_to_mysql_def)
next
  case (Inr p)
  show ?thesis
  proof (cases "email p")
    case (Val e')
    show ?thesis
    proof (cases "email_collation d e' = email_collation d e")
      case True
      then have "email_matches d e' = email_matches d e" by (rule matches_trans)
      with Inr Val True show ?thesis
        by (auto simp: save_lead_to_mysql_def identity_rows_def touch_lead_emails
              length_touch_lead inserted_row_other find_none_filter split: option.splits)
    next
      case False
      with Inr Val show ?thesis
        by (auto simp: save_lead_to_mysql_def identity_rows_def touch_lead_emails
              length_touch_lead inserted_row_other split: option.splits)
    qed
  qed (use Inr in \<open>simp_all add: save_lead_to_mysql_def\<close>)
qed

lemma save_count:
  "length (identity_rows e (snd (save_lead env run d lead)))
     \<le> max 1 (length (identity_rows e d))"
proof (cases "process_lead env lead")
  case (Inl exn)
  then show ?thesis by (simp add: save_lead_def)
next
  case (Inr p)
  show ?thesis
  proof (cases "email p")
    case (Val e')
    show ?thesis
    proof (cases "email_collation d e' = email_collation d e")
      case True
      then have "email_matches d e' = email_matches d e" by (rule matches_trans)
      with Inr Val True show ?thesis
        by (auto simp: save_lead_def identity_rows_def touch_lead_emails
              length_touch_lead inserted_row_other find_none_filter split: option.splits)
    next
      case False
      with Inr Val show ?thesis
        by (auto simp: save_lead_def identity_rows_def touch_lead_emails
              length_touch_lead inserted_row_other split: option.splits)
    qed
  qed (use Inr in \<open>simp_all add: save_lead_def\<close>)
qed

lemma save_unified_new:
  assumes "process_lead env lead = Inr p" "email p = Val e" "e \<noteq> []" "no_db_error run"
    and "identity_rows e d = []"
  shows "fst (save_lead_to_mysql env run d lead) = Inr (True, True, Some (leads_auto_increment d))
     \<and> identity_rows e (snd (save_lead_to_mysql env run d lead))
         = [inserted_row (leads_auto_increment d) (db_now run) p]"
proof -
  have "find (email_matches d e) (leads d) = None"
    using assms(5) by (simp add: identity_rows_def find_none_filter)
  with assms show ?thesis
    by (simp add: save_lead_to_mysql_def identity_rows_def no_db_error_def inserted_row_matches)
qed

lemma save_unified_existing:
  assumes "process_lead env lead = Inr p" "email p = Val e" "e \<noteq> []" "no_db_error run"
    and "identity_rows e d = x # xs"
  shows "fst (save_lead_to_mysql env run d lead) = Inr (True, False, Some (l_id x))
     \<and> length (identity_rows e (snd (save_lead_to_mysql env run d lead)))
         = length (identity_rows e d)
     \<and> leads (snd (save_lead_to_mysql env run d lead))
         = touch_lead (l_id x) (db_now run) (leads d)"
proof -
  have "find (email_matches d e) (leads d) = Some x"
    using assms(5) by (simp add: identity_rows_def find_filter_hd)
  with assms show ?thesis
    by (simp add: save_lead_to_mysql_def identity_rows_def no_db_error_def
        touch_lead_emails length_touch_lead)
qed

lemma save_new:
  assumes "process_lead env lead = Inr p" "email p = Val e" "e \<noteq> []" "no_db_error run"
    and "identity_rows e d = []"
  shows "fst (save_lead env run d lead) = Inr (True, True)
     \<and> identity_rows e (snd (save_lead env run d lead))
         = [inserted_row (leads_auto_increment d) (db_now run) p]"
proof -
  have "find (email_matches d e) (leads d) = None"
    using assms(5) by (simp add: identity_rows_def find_none_filter)
  with assms show ?thesis
    by (simp add: save_lead_def identity_rows_def no_db_error_def inserted_row_matches)
qed

lemma save_existing:
  assumes "process_lead env lead = Inr p" "email p = Val e" "e \<noteq> []" "no_db_error run"
    and "identity_rows e d = x # xs"
  shows "fst (save_lead env run d lead) = Inr (True, False)
     \<and> length (identity_rows e (snd (save_lead env run d lead)))
         = length (identity_rows e d)
     \<and> leads (snd (save_lead env run d lead))
         = touch_lead (l_id x) (db_now run) (leads d)"
proof -
  have "find (email_matches d e) (leads d) = Some x"
    using assms(5) by (simp add: identity_rows_def find_filter_hd)
  with assms show ?thesis
    by (simp add: save_lead_def identity_rows_def no_db_error_def
        touch_lead_emails length_touch_lead)
qed

lemma length_one: "length xs = Suc 0 \<Longrightarrow> \<exists>x. xs = [x]"
  by (cases xs) auto

text \<open>
  C1: a record with identity \<open>e\<close> is upserted into a store in which the server finds
  no row for \<open>e\<close>, and the database raises nothing. The first call inserts and returns
  \<open>is_new = True\<close>; a second call with a record of the same identity returns
  \<open>is_new = False\<close> and the id of the first; the store has exactly one row for \<open>e\<close>
  after each. Every later call on a store with one row for \<open>e\<close> returns
  \<open>is_new = False\<close> and leaves one row. This holds of \<open>save_lead_to_mysql\<close> and of
  \<open>save_lead\<close>. And no call at all, whatever the record and whatever the database
  raises, takes the number of rows of an identity above one. The rows of an identity are
  those the \<open>SELECT\<close> of the methods finds, under the collation of the column.
\<close>

theorem upsert_twice:
  assumes id1: "process_lead env1 lead1 = Inr p1" "email p1 = Val e"
    and id2: "process_lead env2 lead2 = Inr p2" "email p2 = Val e"
    and ne: "e \<noteq> []"
    and ok1: "no_db_error run1" and ok2: "no_db_error run2"
    and fresh: "identity_rows e d = []"
  shows "(\<exists>i d1 d2.
            save_lead_to_mysql env1 run1 d lead1 = (Inr (True, True, Some i), d1)
          \<and> length (identity_rows e d1) = 1
          \<and> save_lead_to_mysql env2 run2 d1 lead2 = (Inr (True, False, Some i), d2)
          \<and> length (identity_rows e d2) = 1)
       \<and> (\<exists>d1 d2.
            save_lead env1 run1 d lead1 = (Inr (True, True), d1)
          \<and> length (identity_rows e d1) = 1
          \<and> save_lead env2 run2 d1 lead2 = (Inr (True, False), d2)
          \<and> length (identity_rows e d2) = 1)
       \<and> (\<forall>d'. length (identity_rows e d') = 1 \<longrightarrow>
            (\<exists>i. fst (save_lead_to_mysql env2 run2 d' lead2) = Inr (True, False, Some i))
          \<and> length (identity_rows e (snd (save_lead_to_mysql env2 run2 d' lead2))) = 1
          \<and> fst (save_lead env2 run2 d' lead2) = Inr (True, False)
          \<and> length (identity_rows e (snd (save_lead env2 run2 d' lead2))) = 1)
       \<and> length (identity_rows e (snd (save_lead_to_mysql env3 run3 d3 lead3)))
            \<le> max 1 (length (identity_rows e d3))
       \<and> length (identity_rows e (snd (save_lead env3 run3 d3 lead3)))
            \<le> max 1 (length (identity_rows e d3))"
proof (intro conjI allI impI)
  obtain r1 d1 where s1: "save_lead_to_mysql env1 run1 d lead1 = (r1, d1)"
    by (cases "save_lead_to_mysql env1 run1 d lead1")
  let ?x = "inserted_row (leads_auto_increment d) (db_now run1) p1"
  from save_unified_new [OF id1 ne ok1 fresh] s1
  have r1: "r1 = Inr (True, True, Some (leads_auto_increment d))"
    and x: "identity_rows e d1 = [?x]" by simp_all
  have xid: "l_id ?x = leads_auto_increment d" by (simp add: inserted_row_def)
  obtain r2 d2 where s2: "save_lead_to_mysql env2 run2 d1 lead2 = (r2, d2)"
    by (cases "save_lead_to_mysql env2 run2 d1 lead2")
  from save_unified_existing [OF id2 ne ok2 x] s2 xid x
  have "r2 = Inr (True, False, Some (leads_auto_increment d))"
    and "length (identity_rows e d2) = 1" by simp_all
  with s1 r1 x s2
  show "\<exists>i d1 d2.
            save_lead_to_mysql env1 run1 d lead1 = (Inr (True, True, Some i), d1)
          \<and> length (identity_rows e d1) = 1
          \<and> save_lead_to_mysql env2 run2 d1 lead2 = (Inr (True, False, Some i), d2)
          \<and> length (identity_rows e d2) = 1"
    by simp
next
  obtain r1 d1 where s1: "save_lead env1 run1 d lead1 = (r1, d1)"
    by (cases "save_lead env1 run1 d lead1")
  let ?x = "inserted_row (leads_auto_increment d) (db_now run1) p1"
  from save_new [OF id1 ne ok1 fresh] s1
  have r1: "r1 = Inr (True, True)"
    and x: "identity_rows e d1 = [?x]" by simp_all
  obtain r2 d2 where s2: "save_lead env2 run2 d1 lead2 = (r2, d2)"
    by (cases "save_lead env2 run2 d1 lead2")
  from save_existing [OF id2 ne ok2 x] s2 x
  have "r2 = Inr (True, False)"
    and "length (identity_rows e d2) = 1" by simp_all
  with s1 r1 x s2
  show "\<exists>d1 d2.
            save_lead env1 run1 d lead1 = (Inr (True, True), d1)
          \<and> length (identity_rows e d1) = 1
          \<and> save_lead env2 run2 d1 lead2 = (Inr (True, False), d2)
          \<and> length (identity_rows e d2) = 1"
    by simp
next
  fix d' assume "length (identity_rows e d') = 1"
  then obtain x where x: "identity_rows e d' = [x]" using length_one by auto
  from save_unified_existing [OF id2 ne ok2 x] x
  show "\<exists>i. fst (save_lead_to_mysql env2 run2 d' lead2) = Inr (True, False, Some i)"
    and "length (identity_rows e (snd (save_lead_to_mysql env2 run2 d' lead2))) = 1"
    by simp_all
  from save_existing [OF id2 ne ok2 x] x
  show "fst (save_lead env2 run2 d' lead2) = Inr (True, False)"
    and "length (identity_rows e (snd (save_lead env2 run2 d' lead2))) = 1"
    by simp_all
next
  show "length (identity_rows e (snd (save_lead_to_mysql env3 run3 d3 lead3)))
            \<le> max 1 (length (identity_rows e d3))"
    by (rule save_unified_count)
  show "length (identity_rows e (snd (save_lead env3 run3 d3 lead3)))
            \<le> max 1 (length (identity_rows e d3))"
    by (rule save_count)
qed

lemma scenario_identity:
  "map_sum id email (process_lead scenario_env scenario_lead) = Inr (Val ''a@test.com'')"
  by code_simp

lemma scenario_processed:
  "\<exists>p. process_lead scenario_env scenario_lead = Inr p \<and> email p = Val ''a@test.com''"
  using scenario_identity by (cases "process_lead scenario_env scenario_lead") auto

theorem upsert_twice_witness:
  "\<exists>i d1 d2.
      save_lead_to_mysql scenario_env (working_db 0) empty_db scenario_lead
        = (Inr (True, True, Some i), d1)
    \<and> length (identity_rows ''a@test.com'' d1) = 1
    \<and> save_lead_to_mysql scenario_env (working_db 600) d1 scenario_lead
        = (Inr (True, False, Some i), d2)
    \<and> length (identity_rows ''a@test.com'' d2) = 1"
proof -
  from scenario_processed obtain p where
    p: "process_lead scenario_env scenario_lead = Inr p" "email p = Val ''a@test.com''"
    by blast
  have ok: "no_db_error (working_db t)" for t
    by (simp add: no_db_error_def working_db_def)
  have fresh: "identity_rows ''a@test.com'' empty_db = []"
    by (simp add: identity_rows_def empty_db_def)
  have "''a@test.com'' \<noteq> []" by simp
  from upsert_twice [OF p p this ok [of 0] ok [of 600] fresh]
  show ?thesis by blast
qed

text \<open>
  C7: when the store has a row for the identity of the record, the upsert changes no
  column of any row of \<open>leads\<close> but \<open>updated_at\<close>, adds no row and leaves the other
  table and the counters alone, whatever the database raises; when the database raises
  nothing, \<open>updated_at\<close> of the row found becomes \<open>NOW()\<close>.
\<close>

theorem upsert_existing_frame:
  assumes ident: "process_lead env lead = Inr p" "email p = Val e"
    and known: "identity_rows e d \<noteq> []"
  shows "except_updated_at (snd (save_lead_to_mysql env run d lead)) = except_updated_at d
       \<and> except_updated_at (snd (save_lead env run d lead)) = except_updated_at d
       \<and> (no_db_error run \<and> e \<noteq> [] \<longrightarrow>
            leads (snd (save_lead_to_mysql env run d lead))
              = touch_lead (l_id (hd (identity_rows e d))) (db_now run) (leads d)
          \<and> leads (snd (save_lead env run d lead))
              = touch_lead (l_id (hd (identity_rows e d))) (db_now run) (leads d))"
proof -
  from known obtain x xs where rows: "identity_rows e d = x # xs"
    by (cases "identity_rows e d") auto
  then have found: "find (email_matches d e) (leads d) = Some x"
    by (simp add: identity_rows_def find_filter_hd)
  have frame1: "except_updated_at (snd (save_lead_to_mysql env run d lead)) = except_updated_at d"
    using ident found
    by (auto simp: save_lead_to_mysql_def except_updated_at_def touch_lead_frame
          split: option.splits)
  have frame2: "except_updated_at (snd (save_lead env run d lead)) = except_updated_at d"
    using ident found
    by (auto simp: save_lead_def except_updated_at_def touch_lead_frame
          split: option.splits)
  have touched: "leads (snd (save_lead_to_mysql env run d lead))
              = touch_lead (l_id (hd (identity_rows e d))) (db_now run) (leads d)
          \<and> leads (snd (save_lead env run d lead))
              = touch_lead (l_id (hd (identity_rows e d))) (db_now run) (leads d)"
    if "no_db_error run" "e \<noteq> []"
    using save_unified_existing [OF ident that(2,1) rows] save_existing [OF ident that(2,1) rows] rows
    by simp
  from frame1 frame2 touched show ?thesis by blast
qed

theorem upsert_existing_frame_witness:
  "except_updated_at (snd (save_lead_to_mysql scenario_env (working_db 600) stored_db scenario_lead))
     = except_updated_at stored_db
   \<and> leads (snd (save_lead_to_mysql scenario_env (working_db 600) stored_db scenario_lead))
     = touch_lead (l_id (hd (identity_rows ''a@test.com'' stored_db))) 600 (leads stored_db)"
proof -
  from scenario_processed obtain p where
    p: "process_lead scenario_env scenario_lead = Inr p" "email p = Val ''a@test.com''"
    by blast
  have ok: "no_db_error (working_db t)" for t
    by (simp add: no_db_error_def working_db_def)
  have fresh: "identity_rows ''a@test.com'' empty_db = []"
    by (simp add: identity_rows_def empty_db_def)
  from save_unified_new [OF p _ ok fresh, of 0]
  have known: "identity_rows ''a@test.com'' stored_db \<noteq> []"
    by (auto simp: stored_db_def)
  from upsert_existing_frame [OF p known, of "working_db 600"] ok [of 600]
  show ?thesis by (simp add: working_db_def)
qed

text \<open>A record whose email differs from a stored one only by what the collation
  ignores is an update of that row.\<close>

lemma collation_variant_is_an_update:
  assumes "process_lead env lead = Inr p" "email p = Val e" "e \<noteq> []" "no_db_error run"
    and "r \<in> set (leads d)" "email_collation d (l_email r) = email_collation d e"
  shows "\<exists>i. fst (save_lead_to_mysql env run d lead) = Inr (True, False, Some i)"
    and "fst (save_lead env run d lead) = Inr (True, False)"
proof -
  from assms(5,6) have "r \<in> set (identity_rows e d)"
    by (simp add: identity_rows_def email_matches_def)
  then obtain x xs where rows: "identity_rows e d = x # xs"
    by (cases "identity_rows e d") auto
  from save_unified_existing [OF assms(1-4) rows]
  show "\<exists>i. fst (save_lead_to_mysql env run d lead) = Inr (True, False, Some i)" by blast
  from save_existing [OF assms(1-4) rows]
  show "fst (save_lead env run d lead) = Inr (True, False)" by blast
qed

subsection \<open>A duplicate at the destination\<close>

text \<open>
  C3, as stated: the creation is answered 422 with a duplicate indicator and the lookup
  finds the contact \<open>C-1\<close>, so the result has \<open>success = True\<close> and the id \<open>C-1\<close>.
  The method returns the result of the update it then sends: when that update is
  answered 503 the result carries the id \<open>C-1\<close> and \<open>success = False\<close>.
\<close>

theorem duplicate_with_failed_update:
  "create_or_update_contact (duplicate_run (answer 503)) scenario_contact =
     Inr \<lparr>request_timestamp = 2, request_body = JObj [(''phone'', JStr ''5551234567'')],
          response_status_code = Some 503, response_body = JObj [],
          response_timestamp = 3, success = False,
          error_message = Some ''Update failed: 503'', ghl_contact_id = JStr ''C-1'',
          result_note = Some ''Updated existing contact''\<rparr>"
  by code_simp

text \<open>
  C3, amended: when the creation is answered 422 with a duplicate indicator and no
  contact id of its own, and the lookup by email finds a contact with an id, the result
  carries that id, and its \<open>success\<close> is true exactly when the update of that contact
  is answered 200.
\<close>

theorem duplicate_resolved_by_update:
  assumes post: "post_outcome run = Answers response"
    and status: "status_code response = 422"
    and body: "json_body response = Some (JObj body)"
    and dup: "py_in ''duplicate'' (py_lower (str_of_json run (JObj body)))"
    and contact: "dict_get body ''contact'' (JObj []) = JObj contact"
    and no_id: "\<not> truthy (dict_get contact ''id'' JNull)"
    and lookup: "get_contact_by_email run (ca_email a) = Inr (Some (JObj existing))"
    and ident: "truthy (dict_get existing ''id'' JNull)"
  shows "\<exists>res. create_or_update_contact run a = Inr res
      \<and> ghl_contact_id res = dict_get existing ''id'' JNull
      \<and> success res =
          (case put_outcome run of Raises msg \<Rightarrow> False | Answers r \<Rightarrow> status_code r = 200)"
proof -
  have "\<exists>res. create_contact run a = Inr res \<and> \<not> success res
      \<and> error_message res = Some ''Duplicate contact''"
    using post status body dup contact no_id
    by (simp add: create_contact_def Let_def recorded_body_def)
  then obtain res where res: "create_contact run a = Inr res" "\<not> success res"
      "error_message res = Some ''Duplicate contact''" by blast
  have word: "py_in ''duplicate'' (py_lower ''Duplicate contact'')" by code_simp
  have nonempty: "existing \<noteq> []"
    using ident by (auto simp: dict_get_def)
  show ?thesis
    using res word lookup ident nonempty
    by (cases "put_outcome run")
       (simp_all add: create_or_update_contact_def update_contact_def Let_def)
qed

theorem duplicate_resolved_by_update_witness:
  "\<exists>res. create_or_update_contact (duplicate_run (answer 200)) scenario_contact = Inr res
      \<and> ghl_contact_id res = JStr ''C-1'' \<and> success res = True"
proof -
  let ?run = "duplicate_run (answer 200)"
  let ?body = "[(''message'', JStr ''This is a duplicate contact'')]"
  let ?found = "[(''id'', JStr ''C-1''), (''email'', JStr ''a@test.com'')]"
  have post: "post_outcome ?run =
      Answers \<lparr>status_code = 422, json_body = Some (JObj ?body), body_text = []\<rparr>"
    by (simp add: duplicate_run_def)
  have dup: "py_in ''duplicate'' (py_lower (str_of_json ?run (JObj ?body)))"
    by code_simp
  have contact: "dict_get ?body ''contact'' (JObj []) = JObj []"
    by (simp add: dict_get_def)
  have lookup: "get_contact_by_email ?run (ca_email scenario_contact) = Inr (Some (JObj ?found))"
    by code_simp
  have put: "(case put_outcome ?run of Raises msg \<Rightarrow> False | Answers r \<Rightarrow> status_code r = 200)"
    by (simp add: duplicate_run_def answer_def)
  have "\<exists>res. create_or_update_contact ?run scenario_contact = Inr res
      \<and> ghl_contact_id res = dict_get ?found ''id'' JNull
      \<and> success res =
          (case put_outcome ?run of Raises msg \<Rightarrow> False | Answers r \<Rightarrow> status_code r = 200)"
    by (rule duplicate_resolved_by_update [OF post _ _ dup contact _ lookup])
       (simp_all add: dict_get_def)
  with put show ?thesis
    by (simp add: dict_get_def)
qed

subsection \<open>A failure of the fetch\<close>

text \<open>
  C4, as stated: on a network error, a timeout or a response outside 2xx the fetch
  returns an empty list, logs, and lets no exception pass. \<open>WordPressSync.fetch_leads\<close>
  logs a timeout and raises it again to its caller; and \<open>fetch_wordpress_leads\<close>
  returns the leads of a response with status 300, which \<open>raise_for_status\<close> lets
  pass.
\<close>

theorem fetch_leads_raises_again:
  "not_2xx (Raises ''timed out'')
   \<and> fetch_leads (Raises ''timed out'') =
       (Inl (RequestException ''timed out''),
        [(ERROR, ''Failed to fetch leads from WordPress: timed out'')])
   \<and> not_2xx multiple_choices
   \<and> fst (fetch_wordpress_leads scenario_strftime multiple_choices 0) =
       JArr [JObj [(''email'', JStr ''a@test.com'')]]"
  by (simp add: not_2xx_def fetch_leads_def multiple_choices_def fetch_wordpress_leads_def
        fetch_try_def raise_for_status_def dict_get_def)

text \<open>
  C4, amended: when the request raises, or is answered with a status from 400 to 599,
  \<open>UnifiedSyncService.fetch_wordpress_leads\<close> returns the empty list and logs one
  error that carries the text of the failure, and raises nothing;
  \<open>WordPressSync.fetch_leads\<close> logs one error with that text and raises the same
  exception to its caller: the \<open>RequestException\<close> of the request, or the
  \<open>HTTPError\<close> of the status.
\<close>

theorem fetch_failure_is_logged:
  "(outcome = Raises msg \<longrightarrow>
      fetch_wordpress_leads fmt outcome since =
        (JArr [], [(ERROR, ''Failed to fetch WordPress leads: '' @ msg)])
    \<and> fetch_leads outcome =
        (Inl (RequestException msg),
         [(ERROR, ''Failed to fetch leads from WordPress: '' @ msg)]))
   \<and> (outcome = Answers response \<and> 400 \<le> status_code response
        \<and> status_code response < 600 \<longrightarrow>
      fetch_wordpress_leads fmt outcome since =
        (JArr [], [(ERROR, ''Failed to fetch WordPress leads: ''
                            @ str_of_int (status_code response))])
    \<and> fetch_leads outcome =
        (Inl (HTTPError (str_of_int (status_code response))),
         [(ERROR, ''Failed to fetch leads from WordPress: ''
                   @ str_of_int (status_code response))]))"
  by (simp add: fetch_wordpress_leads_def fetch_try_def fetch_leads_def raise_for_status_def)

theorem fetch_failure_is_logged_witness:
  "fetch_wordpress_leads scenario_strftime (answer 503) 0 =
     (JArr [], [(ERROR, ''Failed to fetch WordPress leads: '' @ str_of_int 503)])
   \<and> fetch_leads (answer 503) =
     (Inl (HTTPError (str_of_int 503)),
      [(ERROR, ''Failed to fetch leads from WordPress: '' @ str_of_int 503)])
   \<and> fetch_leads (Raises ''timed out'') =
     (Inl (RequestException ''timed out''),
      [(ERROR, ''Failed to fetch leads from WordPress: timed out'')])"
proof -
  let ?response = "\<lparr>status_code = 503, json_body = Some (JObj []), body_text = []\<rparr>"
  have "answer 503 = Answers ?response \<and> 400 \<le> status_code ?response
      \<and> status_code ?response < 600"
    by (simp add: answer_def)
  with fetch_failure_is_logged
         [of "answer 503" _ scenario_strftime 0 ?response]
       fetch_failure_is_logged
         [of "Raises ''timed out''" "''timed out''" scenario_strftime 0]
  show ?thesis by simp
qed

subsection \<open>The window of a cycle\<close>

text \<open>
  C8, as stated: the lower bound of the window lies one polling interval below the
  point the previous cycle covered. For an interval of ten minutes the code puts it
  eleven minutes below the start, not twenty.
\<close>

theorem window_buffer_is_not_the_interval:
  "since_datetime 10 0 = - minutes 11 \<and> since_datetime 10 0 \<noteq> since_as_specified 10 0"
  by (simp add: since_datetime_def since_as_specified_def minutes_def)

text \<open>
  C8, amended: the lower bound of the window is the start of the cycle minus the
  polling interval minus one minute: the buffer added to the lower bound is one minute,
  whatever the polling interval, so the windows of two cycles that start one polling
  interval apart overlap by exactly one minute.
\<close>

theorem window_buffer_is_one_minute:
  "since_datetime sync_interval start_time = start_time - minutes sync_interval - minutes 1
   \<and> start_time - since_datetime sync_interval (start_time + minutes sync_interval)
       = minutes 1"
  by (simp add: since_datetime_def minutes_def algebra_simps)

subsection \<open>The leads that are eligible for delivery\<close>

lemma latest_log_member:
  "latest_log log lead = Some g \<Longrightarrow> lead \<in> set (map g_lead_id log)"
  by (auto simp: latest_log_def split: list.splits)
     (metis (mono_tags, lifting) filter_eq_ConsD image_eqI list.set_intros(1) mem_Collect_eq set_filter)

lemma exhausted_needs_no_sync:
  assumes "latest_log log lead = Some g" and "max_r \<le> g_retry_count g" and "l_id l = lead"
  shows "\<not> needs_sync max_r now log l"
  using assms latest_log_member [OF assms(1)]
  by (auto simp: needs_sync_def)

lemma found_ids:
  assumes "get_leads_to_sync m run d limit = Inr found" and "c \<in> set found"
  shows "\<exists>l \<in> set (leads d). needs_sync (max_retries m) (db_now run) (ghl_sync_log d) l
           \<and> c = candidate_of (ghl_sync_log d) l"
proof -
  from assms have "c \<in> set (sort_key sync_order (remdups (map (candidate_of (ghl_sync_log d))
        (filter (needs_sync (max_retries m) (db_now run) (ghl_sync_log d)) (leads d)))))"
    by (auto simp: get_leads_to_sync_def split: option.splits dest: in_set_takeD)
  then show ?thesis by auto
qed

lemma fold_latest_pres:
  assumes "\<forall>x. g_id (f x) = g_id x"
  shows "fold (\<lambda>x best. if g_id best < g_id x then x else best) (map f gs) (f g)
       = f (fold (\<lambda>x best. if g_id best < g_id x then x else best) gs g)"
  using assms by (induction gs arbitrary: g) auto

lemma latest_log_map:
  assumes "\<forall>x. g_id (f x) = g_id x" and "\<forall>x. g_lead_id (f x) = g_lead_id x"
  shows "latest_log (map f log) lead = map_option f (latest_log log lead)"
proof -
  have "filter (\<lambda>g. g_lead_id g = lead) (map f log) = map f (filter (\<lambda>g. g_lead_id g = lead) log)"
    using assms(2) by (induction log) auto
  then show ?thesis
    using fold_latest_pres [OF assms(1)]
    by (auto simp: latest_log_def split: list.splits)
qed

lemma latest_log_mark_for_retry:
  "latest_log (mark_for_retry r day now log) lead
     = map_option (\<lambda>g. if to_retry r day g
               then g\<lparr>g_status := Retry, g_next_retry_at := Some now, g_updated_at := now\<rparr>
               else g) (latest_log log lead)"
  unfolding mark_for_retry_def by (rule latest_log_map) auto

text \<open>
  C6: a lead whose most recent attempt is in \<open>failed\<close> status with a retry count equal
  to \<open>max_retries\<close> is not among the leads that \<open>get_leads_to_sync\<close> returns,
  whatever the time and whatever \<open>next_retry_at\<close>. The sweep of \<open>retry_failed_leads\<close>
  only takes attempts below \<open>max_retries\<close>: it leaves such an attempt as it is, and
  the lead stays out after the sweep.
\<close>

theorem exhausted_lead_is_not_selected:
  assumes latest: "latest_log (ghl_sync_log d) lead = Some g"
    and failed: "g_status g = Failed"
    and spent: "g_retry_count g = max_retries m"
  shows "(\<forall>found. get_leads_to_sync m run d limit = Inr found \<longrightarrow> lead \<notin> set (map c_id found))
       \<and> latest_log (mark_for_retry (max_retries m) day now (ghl_sync_log d)) lead = Some g
       \<and> (\<forall>found. get_leads_to_sync m run
                     (d\<lparr>ghl_sync_log := mark_for_retry (max_retries m) day now (ghl_sync_log d)\<rparr>)
                     limit = Inr found
            \<longrightarrow> lead \<notin> set (map c_id found))"
proof (intro conjI allI impI)
  fix found assume got: "get_leads_to_sync m run d limit = Inr found"
  show "lead \<notin> set (map c_id found)"
  proof
    assume "lead \<in> set (map c_id found)"
    then obtain c where c: "c \<in> set found" "c_id c = lead" by auto
    from found_ids [OF got c(1)] obtain l where
      l: "needs_sync (max_retries m) (db_now run) (ghl_sync_log d) l"
         "c = candidate_of (ghl_sync_log d) l" by blast
    from l(2) c(2) have "l_id l = lead" by (simp add: candidate_of_def)
    from exhausted_needs_no_sync [OF latest _ this] spent l(1) show False by simp
  qed
next
  show swept: "latest_log (mark_for_retry (max_retries m) day now (ghl_sync_log d)) lead = Some g"
    using latest spent by (simp add: latest_log_mark_for_retry to_retry_def)
  fix found
  let ?d = "d\<lparr>ghl_sync_log := mark_for_retry (max_retries m) day now (ghl_sync_log d)\<rparr>"
  assume got: "get_leads_to_sync m run ?d limit = Inr found"
  show "lead \<notin> set (map c_id found)"
  proof
    assume "lead \<in> set (map c_id found)"
    then obtain c where c: "c \<in> set found" "c_id c = lead" by auto
    from found_ids [OF got c(1)] obtain l where
      l: "needs_sync (max_retries m) (db_now run) (ghl_sync_log ?d) l"
         "c = candidate_of (ghl_sync_log ?d) l" by blast
    from l(2) c(2) have "l_id l = lead" by (simp add: candidate_of_def)
    from swept have "latest_log (ghl_sync_log ?d) lead = Some g" by simp
    from exhausted_needs_no_sync [OF this _ \<open>l_id l = lead\<close>] spent l(1) show False by simp
  qed
qed


lemma lead_with_budget_is_selected:
  "map_sum id (map c_id) (get_leads_to_sync (manager 3) (working_db (minutes 60)) failed_db None)
     = Inr [1]"
  by code_simp

theorem exhausted_lead_is_not_selected_witness:
  "\<exists>found. get_leads_to_sync (manager 1) (working_db (minutes 60)) failed_db None = Inr found
      \<and> 1 \<notin> set (map c_id found)"
proof -
  have latest: "latest_log (ghl_sync_log failed_db) 1 = Some failed_attempt"
    by (simp add: failed_db_def latest_log_def failed_attempt_def)
  have failed: "g_status failed_attempt = Failed"
    and spent: "g_retry_count failed_attempt = max_retries (manager 1)"
    by (simp_all add: failed_attempt_def manager_def)
  obtain found where
    found: "get_leads_to_sync (manager 1) (working_db (minutes 60)) failed_db None = Inr found"
    by (simp add: get_leads_to_sync_def working_db_def)
  with exhausted_lead_is_not_selected [OF latest failed spent, of "working_db (minutes 60)" None]
  show ?thesis by blast
qed


subsection \<open>The ledger of delivery attempts\<close>


lemma log_sync_attempt_prefix:
  "log_sync_attempt m py_now run d lead e result = Inr d'
     \<Longrightarrow> prefix (ghl_sync_log d) (ghl_sync_log d')"
  by (auto simp: log_sync_attempt_def Let_def split: option.splits if_splits)

lemma sync_lead_prefix:
  "sync_lead m fmt w d lead = (r, d') \<Longrightarrow> prefix (ghl_sync_log d) (ghl_sync_log d')"
  by (auto simp: sync_lead_def sync_lead_try_def Let_def
        split: sum.splits option.splits prod.splits dest: log_sync_attempt_prefix)

lemma sync_each_prefix:
  "sync_each m fmt world found counts d = (r, d') \<Longrightarrow> prefix (ghl_sync_log d) (ghl_sync_log d')"
proof (induction found arbitrary: counts d)
  case Nil
  then show ?case by simp
next
  case (Cons lead rest)
  obtain succeeded failed where counts: "counts = (succeeded, failed)" by (cases counts)
  obtain r1 d1 where step: "sync_lead m fmt (world (c_id lead)) d lead = (r1, d1)"
    by (cases "sync_lead m fmt (world (c_id lead)) d lead")
  from sync_lead_prefix [OF step] have p1: "prefix (ghl_sync_log d) (ghl_sync_log d1)" .
  show ?case
  proof (cases r1)
    case (Inl e)
    with Cons.prems counts step p1 show ?thesis by simp
  next
    case (Inr ok)
    with Cons.prems counts step
    have "\<exists>c. sync_each m fmt world rest c d1 = (r, d')"
      by (cases ok) auto
    then obtain c where "sync_each m fmt world rest c d1 = (r, d')" by blast
    from Cons.IH [OF this] p1 show ?thesis by (rule prefix_order.trans[rotated])
  qed
qed

lemma sync_batch_prefix:
  "sync_batch m fmt world run d limit = (r, d') \<Longrightarrow> prefix (ghl_sync_log d) (ghl_sync_log d')"
  by (auto simp: sync_batch_def split: sum.splits if_splits prod.splits dest: sync_each_prefix)

lemma mark_for_retry_frame:
  "map sweep_frame (mark_for_retry r day now log) = map sweep_frame log"
  by (induction log) (auto simp: mark_for_retry_def sweep_frame_def)

lemma mark_for_retry_others:
  "i < length log \<Longrightarrow> g_status (log ! i) \<noteq> Failed \<Longrightarrow> mark_for_retry r day now log ! i = log ! i"
  by (simp add: mark_for_retry_def to_retry_def)

text \<open>
  C5, as stated: no operation changes a field of a row of the ledger once it is
  inserted. \<open>retry_failed_leads\<close> does: the failed attempt of the store below has the
  id 1; after the sweep of its day the row with id 1 is in \<open>retry\<close> status, and the new
  failed attempt is the row with id 2.
\<close>

theorem sweep_rewrites_a_ledger_row:
  "map g_id (ghl_sync_log failed_db) = [1]
   \<and> map g_status (ghl_sync_log failed_db) = [Failed]
   \<and> map g_id (ghl_sync_log (snd (retry_failed_leads (manager 3) scenario_format timeout_world
         (minutes 60) (working_db (minutes 60)) (working_db (minutes 60)) failed_db (Some 0))))
       = [1, 2]
   \<and> map g_status (ghl_sync_log (snd (retry_failed_leads (manager 3) scenario_format timeout_world
         (minutes 60) (working_db (minutes 60)) (working_db (minutes 60)) failed_db (Some 0))))
       = [Retry, Failed]"
  by code_simp

text \<open>
  C5, amended: \<open>log_sync_attempt\<close>, and with it \<open>sync_lead\<close> and \<open>sync_batch\<close>,
  only append to the ledger: the rows that were there are the first rows afterwards,
  unchanged. \<open>retry_failed_leads\<close> writes into rows of the ledger. When its connection
  or its update raises, nothing changes. Otherwise every row that was there is, at its
  place, either the same row, or, when it was in \<open>failed\<close> status, was requested on the
  day of the sweep and had a retry count below \<open>max_retries\<close>, the row with \<open>status\<close>
  set to \<open>retry\<close> and \<open>next_retry_at\<close> and \<open>updated_at\<close> set to \<open>NOW()\<close>; the
  attempts that follow are rows after these.
\<close>

theorem ledger_rows_change_only_by_sweep:
  "(\<forall>d'. log_sync_attempt m py_now run d lead e result = Inr d'
          \<longrightarrow> prefix (ghl_sync_log d) (ghl_sync_log d'))
   \<and> (\<forall>r d'. sync_lead m fmt w d c = (r, d')
          \<longrightarrow> prefix (ghl_sync_log d) (ghl_sync_log d'))
   \<and> (\<forall>r d'. sync_batch m fmt world batch_run d limit = (r, d')
          \<longrightarrow> prefix (ghl_sync_log d) (ghl_sync_log d'))
   \<and> (\<forall>r d'. retry_failed_leads m fmt world py_now run batch_run d day = (r, d') \<longrightarrow>
         (if connect_error run = None \<and> write_error run = None
          then length (ghl_sync_log d) \<le> length (ghl_sync_log d')
             \<and> (\<forall>i<length (ghl_sync_log d).
                   ghl_sync_log d' ! i =
                     (if date_of (g_request_timestamp (ghl_sync_log d ! i))
                           = (case day of None \<Rightarrow> date_of py_now | Some given_day \<Rightarrow> given_day)
                         \<and> g_status (ghl_sync_log d ! i) = Failed
                         \<and> g_retry_count (ghl_sync_log d ! i) < max_retries m
                      then (ghl_sync_log d ! i)
                             \<lparr>g_status := Retry, g_next_retry_at := Some (db_now run),
                              g_updated_at := db_now run\<rparr>
                      else ghl_sync_log d ! i))
          else d' = d))"
proof (intro conjI allI impI)
  fix d' assume "log_sync_attempt m py_now run d lead e result = Inr d'"
  then show "prefix (ghl_sync_log d) (ghl_sync_log d')" by (rule log_sync_attempt_prefix)
next
  fix r d' assume "sync_lead m fmt w d c = (r, d')"
  then show "prefix (ghl_sync_log d) (ghl_sync_log d')" by (rule sync_lead_prefix)
next
  fix r d' assume "sync_batch m fmt world batch_run d limit = (r, d')"
  then show "prefix (ghl_sync_log d) (ghl_sync_log d')" by (rule sync_batch_prefix)
next
  fix r d'
  assume out: "retry_failed_leads m fmt world py_now run batch_run d day = (r, d')"
  let ?day = "case day of None \<Rightarrow> date_of py_now | Some given_day \<Rightarrow> given_day"
  let ?old = "ghl_sync_log d"
  let ?marked = "mark_for_retry (max_retries m) ?day (db_now run) ?old"
  let ?swept = "d\<lparr>ghl_sync_log := ?marked\<rparr>"
  show "if connect_error run = None \<and> write_error run = None
          then length ?old \<le> length (ghl_sync_log d')
             \<and> (\<forall>i<length ?old.
                   ghl_sync_log d' ! i =
                     (if date_of (g_request_timestamp (?old ! i)) = ?day
                         \<and> g_status (?old ! i) = Failed
                         \<and> g_retry_count (?old ! i) < max_retries m
                      then (?old ! i)
                             \<lparr>g_status := Retry, g_next_retry_at := Some (db_now run),
                              g_updated_at := db_now run\<rparr>
                      else ?old ! i))
          else d' = d"
  proof (cases "connect_error run = None \<and> write_error run = None")
    case False
    with out have same: "d' = d"
      by (auto simp: retry_failed_leads_def Let_def split: option.splits)
    show ?thesis unfolding if_not_P [OF False] by (rule same)
  next
    case True
    let ?n = "length (filter (to_retry (max_retries m) ?day) ?old)"
    have "(r, d') = (if 0 < ?n then sync_batch m fmt world batch_run ?swept (Some ?n)
                       else (Inr (0, 0, 0), ?swept))"
      using True out by (simp add: retry_failed_leads_def Let_def)
    then have "prefix (ghl_sync_log ?swept) (ghl_sync_log d')"
      by (cases "0 < ?n") (auto dest: sync_batch_prefix [OF sym])
    then have pre: "prefix ?marked (ghl_sync_log d')" by simp
    then obtain rest where rest: "ghl_sync_log d' = ?marked @ rest"
      by (auto simp: prefix_def)
    have len: "length ?marked = length ?old" by (simp add: mark_for_retry_def)
    have "ghl_sync_log d' ! i =
        (if date_of (g_request_timestamp (?old ! i)) = ?day
            \<and> g_status (?old ! i) = Failed
            \<and> g_retry_count (?old ! i) < max_retries m
         then (?old ! i)\<lparr>g_status := Retry, g_next_retry_at := Some (db_now run),
                           g_updated_at := db_now run\<rparr>
         else ?old ! i)" if "i < length ?old" for i
      using that by (simp add: rest nth_append len) (simp add: mark_for_retry_def to_retry_def)
    moreover have "length ?old \<le> length (ghl_sync_log d')"
      by (simp add: rest len)
    ultimately show ?thesis using True by simp
  qed
qed

lemma log_sync_attempt_returns:
  "connect_error run = None \<Longrightarrow> \<exists>d'. log_sync_attempt m py_now run d lead e result = Inr d'"
  by (simp add: log_sync_attempt_def Let_def split: option.splits)

theorem ledger_rows_change_only_by_sweep_witness:
  "\<exists>r d'. retry_failed_leads (manager 3) scenario_format timeout_world (minutes 60)
            (working_db (minutes 60)) (working_db (minutes 60)) failed_db (Some 0) = (r, d')
      \<and> length (ghl_sync_log failed_db) \<le> length (ghl_sync_log d')
      \<and> ghl_sync_log d' ! 0 =
          failed_attempt\<lparr>g_status := Retry, g_next_retry_at := Some (minutes 60),
                          g_updated_at := minutes 60\<rparr>"
proof -
  let ?run = "working_db (minutes 60)"
  obtain r d' where
    out: "retry_failed_leads (manager 3) scenario_format timeout_world (minutes 60)
            ?run ?run failed_db (Some 0) = (r, d')"
    by (cases "retry_failed_leads (manager 3) scenario_format timeout_world (minutes 60)
            ?run ?run failed_db (Some 0)")
  have ok: "connect_error ?run = None \<and> write_error ?run = None" "db_now ?run = minutes 60"
    by (simp_all add: working_db_def)
  have row: "ghl_sync_log failed_db = [failed_attempt]"
    by (simp add: failed_db_def)
  have due: "date_of (g_request_timestamp failed_attempt) = 0
      \<and> g_status failed_attempt = Failed
      \<and> g_retry_count failed_attempt < max_retries (manager 3)"
    by (simp add: failed_attempt_def manager_def date_of_def)
  from ledger_rows_change_only_by_sweep
    [where m = "manager 3" and fmt = scenario_format and world = timeout_world
       and py_now = "minutes 60" and run = ?run and batch_run = ?run and d = failed_db
       and day = "Some 0"] out
  have "if connect_error ?run = None \<and> write_error ?run = None
          then length (ghl_sync_log failed_db) \<le> length (ghl_sync_log d')
             \<and> (\<forall>i<length (ghl_sync_log failed_db).
                   ghl_sync_log d' ! i =
                     (if date_of (g_request_timestamp (ghl_sync_log failed_db ! i))
                           = (case Some 0 of None \<Rightarrow> date_of (minutes 60)
                              | Some given_day \<Rightarrow> given_day)
                         \<and> g_status (ghl_sync_log failed_db ! i) = Failed
                         \<and> g_retry_count (ghl_sync_log failed_db ! i) < max_retries (manager 3)
                      then (ghl_sync_log failed_db ! i)
                             \<lparr>g_status := Retry, g_next_retry_at := Some (db_now ?run),
                              g_updated_at := db_now ?run\<rparr>
                      else ghl_sync_log failed_db ! i))
          else d' = failed_db"
    by blast
  with ok row due have "length (ghl_sync_log failed_db) \<le> length (ghl_sync_log d')
      \<and> ghl_sync_log d' ! 0 =
          failed_attempt\<lparr>g_status := Retry, g_next_retry_at := Some (minutes 60),
                          g_updated_at := minutes 60\<rparr>"
    by simp
  with out show ?thesis by blast
qed

end
